theory Spec2Isabelle
  imports Complex_Main
begin

section \<open>Python values\<close>

text \<open>
  The integration handles values that come out of \<^verbatim>\<open>json.loads\<close> (the login response, the
  decoded token payload, the connection records) and out of the configuration form. They
  are dynamically typed, so the model keeps them as one datatype. A dict is an association
  list in insertion order; a lookup takes the first binding of a key. A float is either a
  finite one, given by its exact rational value, or one of the three non-finite ones.
\<close>

datatype pyfloat = Finite rat | PosInf | NegInf | NaN

datatype pyval =
    PNone
  | PBool bool
  | PInt int
  | PFloat pyfloat
  | PStr string
  | PList "pyval list"
  | PDict "(string \<times> pyval) list"

text \<open>Python's truth test, as used by \<^verbatim>\<open>if x:\<close> and \<^verbatim>\<open>not x\<close>.\<close>

fun truthy :: "pyval \<Rightarrow> bool" where
  "truthy PNone = False"
| "truthy (PBool b) = b"
| "truthy (PInt n) = (n \<noteq> 0)"
| "truthy (PFloat (Finite r)) = (r \<noteq> 0)"
| "truthy (PFloat _) = True"
| "truthy (PStr s) = (s \<noteq> [])"
| "truthy (PList xs) = (xs \<noteq> [])"
| "truthy (PDict kvs) = (kvs \<noteq> [])"

text \<open>\<^verbatim>\<open>d.get(k, default)\<close> on a dict.\<close>

definition dict_get :: "(string \<times> pyval) list \<Rightarrow> string \<Rightarrow> pyval \<Rightarrow> pyval" where
  "dict_get d k dflt = (case map_of d k of None \<Rightarrow> dflt | Some v \<Rightarrow> v)"

section \<open>Exceptions\<close>

text \<open>
  Every exception carries the text that \<^verbatim>\<open>str(e)\<close> gives. The constructors are the classes
  the code tells apart or raises. \<open>ContentTypeError\<close> is a subclass of
  \<open>ClientResponseError\<close>, which is a subclass of aiohttp's \<open>ClientError\<close>; both carry
  the HTTP status. \<open>Invalid\<close> is voluptuous' \<^verbatim>\<open>vol.Invalid\<close>; its text is only logged and
  is kept in a short form. \<open>OtherException\<close> stands for any other subclass of
  \<^verbatim>\<open>Exception\<close>.
\<close>

datatype exn =
    UpdateFailed string
  | ContentTypeError int string
  | ClientResponseError int string
  | ClientError string
  | KeyError string
  | DecodeError string
  | AttributeError string
  | TypeError string
  | IndexError string
  | ValueError string
  | OverflowError string
  | Invalid string
  | OtherException string

fun exn_str :: "exn \<Rightarrow> string" where
  "exn_str (UpdateFailed m) = m"
| "exn_str (ContentTypeError _ m) = m"
| "exn_str (ClientResponseError _ m) = m"
| "exn_str (ClientError m) = m"
| "exn_str (KeyError m) = m"
| "exn_str (DecodeError m) = m"
| "exn_str (AttributeError m) = m"
| "exn_str (TypeError m) = m"
| "exn_str (IndexError m) = m"
| "exn_str (ValueError m) = m"
| "exn_str (OverflowError m) = m"
| "exn_str (Invalid m) = m"
| "exn_str (OtherException m) = m"

text \<open>\<^verbatim>\<open>isinstance(e, aiohttp.ClientError)\<close>.\<close>

fun is_client_error :: "exn \<Rightarrow> bool" where
  "is_client_error (ContentTypeError _ _) = True"
| "is_client_error (ClientResponseError _ _) = True"
| "is_client_error (ClientError _) = True"
| "is_client_error _ = False"

section \<open>The coordinator (coordinator.py)\<close>

text \<open>
  A \<^verbatim>\<open>datetime\<close> in UTC is a point on the time line, counted in microseconds (the resolution
  of the Python type) from the epoch; a \<^verbatim>\<open>timedelta\<close> is a number of microseconds. The
  earliest \<^verbatim>\<open>datetime\<close> is the start of the year 1, 62 135 596 800 seconds before the
  epoch; a subtraction that would go below it raises \<^verbatim>\<open>OverflowError\<close>.

  A reading of the system clock, \<^verbatim>\<open>datetime.now(timezone.utc)\<close>, is a natural number: the
  clock counts from the epoch and is not set before it. It is also taken to be far from
  the end of the range of \<^verbatim>\<open>datetime\<close> (the year 9999), so that adding an hour to it does
  not overflow.
\<close>

type_synonym datetime = int

type_synonym clock_reading = nat

definition DATETIME_MIN :: datetime where
  "DATETIME_MIN = - 62135596800000000"

text \<open>\<^verbatim>\<open>t - timedelta\<close> for a \<^verbatim>\<open>timedelta\<close> that is not negative.\<close>

definition datetime_sub :: "datetime \<Rightarrow> int \<Rightarrow> exn + datetime" where
  "datetime_sub t delta =
     (if t - delta < DATETIME_MIN then Inl (OverflowError ''date value out of range'')
      else Inr (t - delta))"

definition minutes :: "int \<Rightarrow> int" where
  "minutes n = n * 60000000"

definition hours :: "int \<Rightarrow> int" where
  "hours n = n * 3600000000"

text \<open>
  A request that went through \<^verbatim>\<open>self._session\<close>: a POST with its JSON body or a GET with its
  headers.
\<close>

datatype request =
    Post string pyval
  | Get string "(string \<times> string) list"

text \<open>
  The fields of \<open>LianderDataUpdateCoordinator\<close> that the token routine reads and writes,
  together with the two effects it has on the outside: \<open>requests\<close> is the list of requests
  issued so far, \<open>warnings\<close> the records written to the logger at warning level (records
  at debug and error level are left out).
\<close>

record coordinator =
  username :: pyval
  password :: pyval
  token :: pyval
  token_expiry :: "datetime option"
  requests :: "request list"
  warnings :: "string list"

text \<open>
  \<open>is_token_expired\<close>; \<open>now\<close> is what \<^verbatim>\<open>datetime.now(timezone.utc)\<close> returns in the call.
  A \<^verbatim>\<open>datetime\<close> is always true in a truth test, so \<^verbatim>\<open>not self._token_expiry\<close> holds
  exactly when the field is \<^verbatim>\<open>None\<close>. The two thresholds are computed by subtracting from
  the expiry, first the 30 minutes, then the 5 minutes; the function raises when the
  subtraction does.
\<close>

definition is_token_expired :: "clock_reading \<Rightarrow> coordinator \<Rightarrow> (exn + bool) \<times> coordinator" where
  "is_token_expired now c =
     (case token_expiry c of
        None \<Rightarrow> (Inr True, c)
      | Some expiry \<Rightarrow>
          (case datetime_sub expiry (minutes 30) of
             Inl e \<Rightarrow> (Inl e, c)
           | Inr warn_from \<Rightarrow>
               let c' = (if warn_from \<le> int now
                         then c\<lparr>warnings := warnings c @ [''Token is about to expire in less than 30 minutes.'']\<rparr>
                         else c)
               in (case datetime_sub expiry (minutes 5) of
                     Inl e \<Rightarrow> (Inl e, c')
                   | Inr expired_from \<Rightarrow> (Inr (expired_from \<le> int now), c'))))"

subsection \<open>Library functions and operations on values\<close>

text \<open>
  Four functions of Python and of PyJWT that the code calls are parameters of the model:
  \<^item> \<open>str_of\<close>: \<^verbatim>\<open>str(v)\<close> for a value that is not a \<^verbatim>\<open>str\<close>;
  \<^item> \<open>int_of_str\<close>: \<^verbatim>\<open>int(s)\<close> for a \<^verbatim>\<open>str\<close>, \<open>None\<close> where it raises \<^verbatim>\<open>ValueError\<close>;
  \<^item> \<open>jwt_decode\<close>: \<^verbatim>\<open>jwt.decode(token, options={"verify_signature": False})\<close>, which
    returns the payload, a dict, or raises;
  \<^item> \<open>fromtimestamp\<close>: \<^verbatim>\<open>datetime.fromtimestamp(v, timezone.utc)\<close>, which returns a
    \<^verbatim>\<open>datetime\<close> or raises.
\<close>

record library =
  str_of :: "pyval \<Rightarrow> string"
  int_of_str :: "string \<Rightarrow> int option"
  jwt_decode :: "pyval \<Rightarrow> exn + (string \<times> pyval) list"
  fromtimestamp :: "pyval \<Rightarrow> exn + datetime"

text \<open>The text an f-string puts for \<^verbatim>\<open>{v}\<close>.\<close>

definition py_format :: "library \<Rightarrow> pyval \<Rightarrow> string" where
  "py_format L v = (case v of PStr s \<Rightarrow> s | _ \<Rightarrow> str_of L v)"

fun type_name :: "pyval \<Rightarrow> string" where
  "type_name PNone = ''NoneType''"
| "type_name (PBool _) = ''bool''"
| "type_name (PInt _) = ''int''"
| "type_name (PFloat _) = ''float''"
| "type_name (PStr _) = ''str''"
| "type_name (PList _) = ''list''"
| "type_name (PDict _) = ''dict''"

text \<open>A name between single quotes, as the messages of Python show it.\<close>

definition quoted :: "string \<Rightarrow> string" where
  "quoted s = [CHR 0x27] @ s @ [CHR 0x27]"

text \<open>\<^verbatim>\<open>v.get(k, default)\<close> on any value: only a dict has the method.\<close>

definition py_get :: "pyval \<Rightarrow> string \<Rightarrow> pyval \<Rightarrow> exn + pyval" where
  "py_get v k dflt =
     (case v of
        PDict d \<Rightarrow> Inr (dict_get d k dflt)
      | _ \<Rightarrow> Inl (AttributeError (quoted (type_name v) @ '' object has no attribute '' @ quoted ''get'')))"

text \<open>
  \<^verbatim>\<open>for x in v\<close>: the elements of a list, the keys of a dict, the characters of a
  string; nothing else that JSON yields can be iterated.
\<close>

definition py_iter :: "pyval \<Rightarrow> exn + pyval list" where
  "py_iter v =
     (case v of
        PList xs \<Rightarrow> Inr xs
      | PDict kvs \<Rightarrow> Inr (map (\<lambda>kv. PStr (fst kv)) kvs)
      | PStr s \<Rightarrow> Inr (map (\<lambda>ch. PStr [ch]) s)
      | _ \<Rightarrow> Inl (TypeError (quoted (type_name v) @ '' object is not iterable'')))"

text \<open>\<^verbatim>\<open>v[0]\<close>. The keys of a dict that comes from JSON are strings, so \<open>0\<close> is never one.\<close>

definition py_first :: "pyval \<Rightarrow> exn + pyval" where
  "py_first v =
     (case v of
        PList xs \<Rightarrow> (case xs of [] \<Rightarrow> Inl (IndexError ''list index out of range'') | x # _ \<Rightarrow> Inr x)
      | PStr s \<Rightarrow> (case s of [] \<Rightarrow> Inl (IndexError ''string index out of range'') | ch # _ \<Rightarrow> Inr (PStr [ch]))
      | PDict kvs \<Rightarrow> Inl (KeyError ''0'')
      | _ \<Rightarrow> Inl (TypeError (quoted (type_name v) @ '' object is not subscriptable'')))"

text \<open>\<^verbatim>\<open>len(v)\<close>.\<close>

definition py_len :: "pyval \<Rightarrow> exn + int" where
  "py_len v =
     (case v of
        PList xs \<Rightarrow> Inr (int (length xs))
      | PStr s \<Rightarrow> Inr (int (length s))
      | PDict kvs \<Rightarrow> Inr (int (length kvs))
      | _ \<Rightarrow> Inl (TypeError (''object of type '' @ quoted (type_name v) @ '' has no len()'')))"

text \<open>
  \<^verbatim>\<open>s.strip()\<close>: both ends lose their whitespace. The whitespace characters are the
  characters for which \<^verbatim>\<open>str.isspace\<close> holds among the code points below 256, which are
  the characters of the model: tab, line feed, vertical tab, form feed, carriage return,
  the four separators 0x1C to 0x1F, the space, the next-line character 0x85 and the
  no-break space 0xA0.
\<close>

definition is_space :: "char \<Rightarrow> bool" where
  "is_space ch = (ch \<in> set [CHR 0x09, CHR 0x0A, CHR 0x0B, CHR 0x0C, CHR 0x0D,
                                CHR 0x1C, CHR 0x1D, CHR 0x1E, CHR 0x1F, CHR 0x20,
                                CHR 0x85, CHR 0xA0])"

definition strip :: "string \<Rightarrow> string" where
  "strip s = rev (dropWhile is_space (rev (dropWhile is_space s)))"

subsection \<open>HTTP\<close>

text \<open>
  What the server and the network do is an input of the model. A request either raises
  (a connection error, a timeout) or yields a response, whose \<^verbatim>\<open>json()\<close> either raises
  (\<open>ContentTypeError\<close> for a body that is not JSON, a \<^verbatim>\<open>ValueError\<close> for a malformed
  one) or yields the parsed value. \<open>status_error\<close> is the text of the
  \<open>ClientResponseError\<close> that \<^verbatim>\<open>raise_for_status()\<close> raises for the response.
\<close>

record response =
  status :: int
  status_error :: string
  json :: "exn + pyval"

definition raise_for_status :: "response \<Rightarrow> exn + unit" where
  "raise_for_status r =
     (if 400 \<le> status r then Inl (ClientResponseError (status r) (status_error r)) else Inr ())"

definition API_LOGIN_URL :: string where
  "API_LOGIN_URL = ''https://mijn-liander-gateway.web.liander.nl/api/v1/auth/login''"

definition API_AANSLUITINGEN_URL :: string where
  "API_AANSLUITINGEN_URL = ''https://mijn-liander-gateway.web.liander.nl/api/v1/aansluitingen''"

subsection \<open>Token renewal\<close>

text \<open>
  One login attempt as the environment answers it: the outcome of the POST, and the
  value \<^verbatim>\<open>datetime.now(timezone.utc)\<close> has when the fallback expiry is computed.
\<close>

record login_attempt =
  reply :: "exn + response"
  clock :: clock_reading

text \<open>
  The inner \<^verbatim>\<open>try\<close> of \<open>_async_renew_token\<close>: decode the token and compute the expiry.
  A missing or false \<open>exp\<close> claim falls back to one hour from now.
\<close>

definition decode_expiry :: "library \<Rightarrow> clock_reading \<Rightarrow> pyval \<Rightarrow> exn + datetime" where
  "decode_expiry L now tok =
     (case jwt_decode L tok of
        Inl e \<Rightarrow> Inl e
      | Inr decoded_token \<Rightarrow>
          let exp_timestamp = dict_get decoded_token ''exp'' PNone
          in if truthy exp_timestamp then fromtimestamp L exp_timestamp
             else Inr (int now + hours 1))"

text \<open>The handler of the inner \<^verbatim>\<open>try\<close>: \<^verbatim>\<open>except jwt.DecodeError\<close>.\<close>

definition decode_handler :: "exn \<Rightarrow> exn" where
  "decode_handler e =
     (case e of
        DecodeError m \<Rightarrow> UpdateFailed (''JWT decode error: '' @ m)
      | _ \<Rightarrow> e)"

text \<open>
  The body of the outer \<^verbatim>\<open>try\<close>. The token is stored before it is tested or decoded, so
  it stays stored when the attempt fails after that point.
\<close>

definition renew_try :: "library \<Rightarrow> login_attempt \<Rightarrow> coordinator \<Rightarrow> (exn + unit) \<times> coordinator" where
  "renew_try L a c =
     (case reply a of
        Inl e \<Rightarrow> (Inl e, c)
      | Inr resp \<Rightarrow>
          (case raise_for_status resp of
             Inl e \<Rightarrow> (Inl e, c)
           | Inr _ \<Rightarrow>
               if status resp = 401 then (Inl (UpdateFailed ''Unauthorized, token expired.''), c)
               else
                 (case json resp of
                    Inl e \<Rightarrow> (Inl e, c)
                  | Inr login_response \<Rightarrow>
                      (case py_get login_response ''jwt'' PNone of
                         Inl e \<Rightarrow> (Inl e, c)
                       | Inr tok \<Rightarrow>
                           let c1 = c\<lparr>token := tok\<rparr>
                           in if \<not> truthy (token c1)
                              then (Inl (UpdateFailed ''JWT token not found in login response.''), c1)
                              else
                                (case decode_expiry L (clock a) (token c1) of
                                   Inl e \<Rightarrow> (Inl (decode_handler e), c1)
                                 | Inr t \<Rightarrow> (Inr (), c1\<lparr>token_expiry := Some t\<rparr>))))))"

text \<open>
  The handlers of the outer \<^verbatim>\<open>try\<close>, in the order of the source:
  \<^verbatim>\<open>(ContentTypeError, KeyError)\<close>, then \<^verbatim>\<open>aiohttp.ClientError\<close>, then \<^verbatim>\<open>Exception\<close>,
  which also catches an \<open>UpdateFailed\<close> raised in the body.
\<close>

definition renew_handler :: "exn \<Rightarrow> exn" where
  "renew_handler e =
     (case e of
        ContentTypeError _ _ \<Rightarrow> UpdateFailed ''Invalid JSON response during token renewal.''
      | KeyError _ \<Rightarrow> UpdateFailed ''Invalid JSON response during token renewal.''
      | _ \<Rightarrow>
          if is_client_error e then UpdateFailed (''Error renewing token: '' @ exn_str e)
          else UpdateFailed (''Unexpected error renewing token: '' @ exn_str e))"

definition login_data :: "coordinator \<Rightarrow> pyval" where
  "login_data c = PDict [(''username'', username c), (''password'', password c)]"

definition async_renew_token :: "library \<Rightarrow> login_attempt \<Rightarrow> coordinator \<Rightarrow> (exn + unit) \<times> coordinator" where
  "async_renew_token L a c =
     (let c0 = c\<lparr>requests := requests c @ [Post API_LOGIN_URL (login_data c)]\<rparr>
      in case renew_try L a c0 of
           (Inl e, c') \<Rightarrow> (Inl (renew_handler e), c')
         | (Inr u, c') \<Rightarrow> (Inr u, c'))"

subsection \<open>Getting a token and polling\<close>

text \<open>
  The first \<^verbatim>\<open>if\<close> of \<open>get_valid_token\<close>: renew when no token is stored. \<open>a1\<close> answers
  that renewal.
\<close>

definition renew_if_missing :: "library \<Rightarrow> login_attempt \<Rightarrow> coordinator \<Rightarrow> (exn + unit) \<times> coordinator" where
  "renew_if_missing L a1 c =
     (if \<not> truthy (token c) then async_renew_token L a1 c else (Inr (), c))"

text \<open>
  \<open>get_valid_token\<close>. \<open>a2\<close> answers the renewal made when the expiry test says expired;
  \<open>now\<close> is the time the expiry test reads. The expiry test is called once, after the
  first \<^verbatim>\<open>if\<close> and outside any \<^verbatim>\<open>try\<close>, so what it raises leaves the function as it is.
\<close>

definition get_valid_token ::
  "library \<Rightarrow> clock_reading \<Rightarrow> login_attempt \<Rightarrow> login_attempt \<Rightarrow> coordinator \<Rightarrow> (exn + pyval) \<times> coordinator" where
  "get_valid_token L now a1 a2 c =
     (case renew_if_missing L a1 c of
        (Inl e, c1) \<Rightarrow> (Inl e, c1)
      | (Inr _, c1) \<Rightarrow>
          (case is_token_expired now c1 of
             (Inl e, c2) \<Rightarrow> (Inl e, c2)
           | (Inr expired, c2) \<Rightarrow>
               (case (if expired then async_renew_token L a2 c2 else (Inr (), c2)) of
                  (Inl e, c3) \<Rightarrow> (Inl e, c3)
                | (Inr _, c3) \<Rightarrow>
                    if token c3 = PNone
                    then (Inl (UpdateFailed ''Token is not available after renewal.''), c3)
                    else (Inr (token c3), c3))))"

text \<open>The body of the \<^verbatim>\<open>try\<close> of \<open>_async_update_data\<close>, and its handlers.\<close>

definition fetch_try :: "exn + response \<Rightarrow> exn + pyval" where
  "fetch_try r =
     (case r of
        Inl e \<Rightarrow> Inl e
      | Inr resp \<Rightarrow>
          (case raise_for_status resp of
             Inl e \<Rightarrow> Inl e
           | Inr _ \<Rightarrow>
               if status resp = 401 then Inl (UpdateFailed ''Unauthorized, token expired.'')
               else if status resp = 503 then Inl (UpdateFailed ''Service unavailable, token expired.'')
               else json resp))"

definition fetch_handler :: "exn \<Rightarrow> exn" where
  "fetch_handler e =
     (case e of
        ContentTypeError _ _ \<Rightarrow> UpdateFailed ''Invalid JSON response from Liander API.''
      | _ \<Rightarrow>
          if is_client_error e then UpdateFailed (''Error fetching data from Liander API: '' @ exn_str e)
          else UpdateFailed (''Unexpected error fetching data: '' @ exn_str e))"

text \<open>
  \<open>_async_update_data\<close>; \<open>fetched\<close> is the outcome of the GET. The call of
  \<open>get_valid_token\<close> stands before the \<^verbatim>\<open>try\<close>, so what it raises passes unchanged.
\<close>

definition async_update_data ::
  "library \<Rightarrow> clock_reading \<Rightarrow> login_attempt \<Rightarrow> login_attempt \<Rightarrow> exn + response \<Rightarrow> coordinator
     \<Rightarrow> (exn + pyval) \<times> coordinator" where
  "async_update_data L now a1 a2 fetched c =
     (case get_valid_token L now a1 a2 c of
        (Inl e, c1) \<Rightarrow> (Inl e, c1)
      | (Inr jwt_token, c1) \<Rightarrow>
          let headers = [(''Authorization'', ''Bearer '' @ py_format L jwt_token)] in
          let c2 = c1\<lparr>requests := requests c1 @ [Get API_AANSLUITINGEN_URL headers]\<rparr> in
            (case fetch_try fetched of
               Inl e \<Rightarrow> (Inl (fetch_handler e), c2)
             | Inr data \<Rightarrow> (Inr data, c2)))"

section \<open>The sensors (sensor.py, binary_sensor.py)\<close>

text \<open>\<^verbatim>\<open>isinstance(v, dict)\<close>, and the items of a dict.\<close>

fun is_dict :: "pyval \<Rightarrow> bool" where
  "is_dict (PDict _) = True"
| "is_dict _ = False"

fun dict_items :: "pyval \<Rightarrow> (string \<times> pyval) list" where
  "dict_items (PDict d) = d"
| "dict_items _ = []"

text \<open>
  The formatted address of \<open>native_value\<close>:
  \<^verbatim>\<open>f"{street} {house_number}{addition} {postal_code} {city}".strip()\<close>.
\<close>

definition format_address :: "library \<Rightarrow> (string \<times> pyval) list \<Rightarrow> string" where
  "format_address L address =
     (let street = dict_get address ''straat'' (PStr []);
          house_number = dict_get address ''huisnummer'' (PStr []);
          addition = dict_get address ''toevoeging'' (PStr []);
          postal_code = dict_get address ''postcode'' (PStr []);
          city = dict_get address ''plaats'' (PStr [])
      in strip (py_format L street @ '' '' @ py_format L house_number @ py_format L addition
                @ '' '' @ py_format L postal_code @ '' '' @ py_format L city))"

text \<open>
  What one round of a \<^verbatim>\<open>for\<close> loop does: it returns from the function, or it goes on to
  the next element with the local variable \<open>value\<close> as it stands.
\<close>

datatype loop_step = Return pyval | Next pyval

text \<open>\<^verbatim>\<open>account.get('aansluitingen', {}).get('elektra', [])\<close>, used by both sensors.\<close>

definition account_connections :: "pyval \<Rightarrow> exn + pyval" where
  "account_connections account =
     (case py_get account ''aansluitingen'' (PDict []) of
        Inl e \<Rightarrow> Inl e
      | Inr aansluitingen \<Rightarrow> py_get aansluitingen ''elektra'' (PList []))"

text \<open>The \<^verbatim>\<open>if\<close>/\<^verbatim>\<open>elif\<close> chain of \<open>native_value\<close> over the first connection.\<close>

definition elektra_value :: "string \<Rightarrow> pyval \<Rightarrow> pyval \<Rightarrow> exn + pyval" where
  "elektra_value key val elektra =
     (if key = ''electricity_ean'' then py_get elektra ''ean'' PNone
      else if key = ''connection_capacity'' then py_get elektra ''aansluitwaarde'' PNone
      else if key = ''status'' then py_get elektra ''status'' PNone
      else if key = ''network_costs'' then py_get elektra ''netwerkkosten'' PNone
      else if key = ''maximum_power'' then py_get elektra ''maximaalVermogen'' PNone
      else Inr val)"

text \<open>The block under \<^verbatim>\<open>if meters:\<close> of \<open>native_value\<close>.\<close>

definition meters_value :: "string \<Rightarrow> pyval \<Rightarrow> pyval \<Rightarrow> exn + pyval" where
  "meters_value key val meters =
     (case (if key = ''number_of_meters''
            then (case py_len meters of Inl e \<Rightarrow> Inl e | Inr n \<Rightarrow> Inr (PInt n))
            else Inr val) of
        Inl e \<Rightarrow> Inl e
      | Inr val1 \<Rightarrow>
          (case py_first meters of
             Inl e \<Rightarrow> Inl e
           | Inr meter \<Rightarrow>
               if key = ''meter_number'' then py_get meter ''meternummer'' PNone
               else if key = ''number_of_registers'' then py_get meter ''aantalTelwerken'' PNone
               else if key = ''number_of_phases'' then py_get meter ''aantalFasen'' PNone
               else Inr val1))"

text \<open>The block under \<^verbatim>\<open>if elektra_connections:\<close> of \<open>native_value\<close>.\<close>

definition connections_value :: "string \<Rightarrow> pyval \<Rightarrow> pyval \<Rightarrow> exn + loop_step" where
  "connections_value key val elektra_connections =
     (case py_first elektra_connections of
        Inl e \<Rightarrow> Inl e
      | Inr elektra \<Rightarrow>
          (case elektra_value key val elektra of
             Inl e \<Rightarrow> Inl e
           | Inr val1 \<Rightarrow>
               (case py_get elektra ''meters'' (PList []) of
                  Inl e \<Rightarrow> Inl e
                | Inr meters \<Rightarrow>
                    (case (if truthy meters then meters_value key val1 meters else Inr val1) of
                       Inl e \<Rightarrow> Inl e
                     | Inr val2 \<Rightarrow> if val2 \<noteq> PNone then Inr (Return val2) else Inr (Next val2)))))"

text \<open>The body of the loop of \<open>native_value\<close> for one account.\<close>

definition native_value_account :: "library \<Rightarrow> string \<Rightarrow> pyval \<Rightarrow> pyval \<Rightarrow> exn + loop_step" where
  "native_value_account L key val account =
     (case py_get account ''adres'' (PDict []) of
        Inl e \<Rightarrow> Inl e
      | Inr address \<Rightarrow>
          if truthy address \<and> is_dict address \<and> key = ''address''
          then Inr (Return (PStr (format_address L (dict_items address))))
          else
            (case account_connections account of
               Inl e \<Rightarrow> Inl e
             | Inr elektra_connections \<Rightarrow>
                 if truthy elektra_connections then connections_value key val elektra_connections
                 else Inr (Next val)))"

text \<open>The loop; when it runs out of accounts the function returns \<^verbatim>\<open>None\<close>.\<close>

fun native_value_loop :: "library \<Rightarrow> string \<Rightarrow> pyval \<Rightarrow> pyval list \<Rightarrow> exn + pyval" where
  "native_value_loop L key val [] = Inr PNone"
| "native_value_loop L key val (account # accounts) =
     (case native_value_account L key val account of
        Inl e \<Rightarrow> Inl e
      | Inr (Return v) \<Rightarrow> Inr v
      | Inr (Next val') \<Rightarrow> native_value_loop L key val' accounts)"

text \<open>
  \<open>LianderSensor.native_value\<close> for the sensor whose description has the given key;
  \<open>data\<close> is \<^verbatim>\<open>self.coordinator.data\<close>.
\<close>

definition native_value :: "library \<Rightarrow> string \<Rightarrow> pyval \<Rightarrow> exn + pyval" where
  "native_value L key data =
     (if truthy data
      then (case py_iter data of
              Inl e \<Rightarrow> Inl e
            | Inr accounts \<Rightarrow> native_value_loop L key PNone accounts)
      else Inr PNone)"

text \<open>\<^verbatim>\<open>meters[0].get(key, False)\<close>, returned by \<open>is_on\<close> for a key that reads the first meter.\<close>

definition meter_flag :: "string \<Rightarrow> pyval \<Rightarrow> exn + pyval option" where
  "meter_flag key meters =
     (case py_first meters of
        Inl e \<Rightarrow> Inl e
      | Inr meter \<Rightarrow> map_sum id Some (py_get meter key (PBool False)))"

text \<open>
  The \<^verbatim>\<open>if\<close>/\<^verbatim>\<open>elif\<close> chain of \<open>LianderBinarySensor.is_on\<close>: \<open>Some v\<close> when it returns
  \<open>v\<close>, \<open>None\<close> when no branch is taken and the loop goes on.
\<close>

definition flag_value :: "string \<Rightarrow> pyval \<Rightarrow> pyval \<Rightarrow> exn + pyval option" where
  "flag_value key elektra meters =
     (if key = ''contract''
      then map_sum id Some (py_get elektra ''contract'' (PBool False))
      else if key = ''toestemmingVoorUitlezen''
      then map_sum id Some (py_get elektra ''toestemmingVoorUitlezen'' (PBool False))
      else if key = ''slimmeMeter'' \<and> truthy meters
      then meter_flag ''slimmeMeter'' meters
      else if key = ''geschiktVoorTerugleveren'' \<and> truthy meters
      then meter_flag ''geschiktVoorTerugleveren'' meters
      else if key = ''geschiktVoorDubbeltarief'' \<and> truthy meters
      then meter_flag ''geschiktVoorDubbeltarief'' meters
      else if key = ''levertTerug''
      then map_sum id Some (py_get elektra ''levertTerug'' (PBool False))
      else Inr None)"

text \<open>The body of the loop of \<open>LianderBinarySensor.is_on\<close> for one account.\<close>

definition is_on_account :: "string \<Rightarrow> pyval \<Rightarrow> exn + pyval option" where
  "is_on_account key account =
     (case account_connections account of
        Inl e \<Rightarrow> Inl e
      | Inr elektra_connections \<Rightarrow>
          if truthy elektra_connections then
            (case py_first elektra_connections of
               Inl e \<Rightarrow> Inl e
             | Inr elektra \<Rightarrow>
                 (case py_get elektra ''meters'' (PList []) of
                    Inl e \<Rightarrow> Inl e
                  | Inr meters \<Rightarrow> flag_value key elektra meters))
          else Inr None)"

fun is_on_loop :: "string \<Rightarrow> pyval list \<Rightarrow> exn + pyval" where
  "is_on_loop key [] = Inr (PBool False)"
| "is_on_loop key (account # accounts) =
     (case is_on_account key account of
        Inl e \<Rightarrow> Inl e
      | Inr (Some v) \<Rightarrow> Inr v
      | Inr None \<Rightarrow> is_on_loop key accounts)"

definition is_on :: "string \<Rightarrow> pyval \<Rightarrow> exn + pyval" where
  "is_on key data =
     (if \<not> truthy data then Inr (PBool False)
      else (case py_iter data of
              Inl e \<Rightarrow> Inl e
            | Inr accounts \<Rightarrow> is_on_loop key accounts))"

text \<open>The sample payload at the end of coordinator.py.\<close>

definition example_data :: pyval where
  "example_data =
     PList [
       PDict [
         (''adres'', PDict [
            (''postcode'', PStr ''1000 AAB''),
            (''straat'', PStr ''Mijnstraat''),
            (''huisnummer'', PStr ''1''),
            (''toevoeging'', PStr []),
            (''plaats'', PStr ''AMSTERDAM'')]),
         (''aansluitingen'', PDict [
            (''elektra'', PList [
               PDict [
                 (''type'', PStr ''ElektraAansluiting''),
                 (''ean'', PStr ''123456789012345678''),
                 (''aansluitwaarde'', PStr ''3x25A''),
                 (''status'', PStr ''In bedrijf''),
                 (''netwerkkosten'', PStr ''400.92''),
                 (''meters'', PList [
                    PDict [
                      (''type'', PStr ''Elektrameter''),
                      (''meternummer'', PStr ''E0000000000000000''),
                      (''aantalTelwerken'', PInt 4),
                      (''aantalFasen'', PStr ''3'')]]),
                 (''maximaalVermogen'', PStr ''17'')]]),
            (''gas'', PList [])])]]"

section \<open>The configuration flow (config_flow.py)\<close>

subsection \<open>The validators of the schema\<close>

text \<open>
  The schema is built from validators of voluptuous and of Home Assistant's
  \<open>config_validation\<close>; they are modelled after those libraries. \<^verbatim>\<open>int(v)\<close> first:
  a bool counts as 0 or 1, a finite float is truncated towards zero, a non-finite one
  raises, a string is parsed (\<open>int_of_str\<close>), anything else is a \<^verbatim>\<open>TypeError\<close>.
\<close>

definition py_int :: "library \<Rightarrow> pyval \<Rightarrow> exn + int" where
  "py_int L v =
     (case v of
        PInt n \<Rightarrow> Inr n
      | PBool b \<Rightarrow> Inr (if b then 1 else 0)
      | PFloat f \<Rightarrow>
          (case f of
             Finite r \<Rightarrow> Inr (if 0 \<le> r then \<lfloor>r\<rfloor> else \<lceil>r\<rceil>)
           | NaN \<Rightarrow> Inl (ValueError ''cannot convert float NaN to integer'')
           | _ \<Rightarrow> Inl (OverflowError ''cannot convert float infinity to integer''))
      | PStr s \<Rightarrow>
          (case int_of_str L s of
             Some n \<Rightarrow> Inr n
           | None \<Rightarrow> Inl (ValueError ''invalid literal for int() with base 10''))
      | _ \<Rightarrow> Inl (TypeError (''int() argument must be a string, a bytes-like object or a real number, not ''
                                @ quoted (type_name v))))"

text \<open>
  \<^verbatim>\<open>vol.Coerce(int)\<close> turns a \<^verbatim>\<open>ValueError\<close> or a \<^verbatim>\<open>TypeError\<close> of \<^verbatim>\<open>int(v)\<close> into
  \<open>Invalid\<close>; any other exception passes through it.
\<close>

definition coerce_int :: "library \<Rightarrow> pyval \<Rightarrow> exn + int" where
  "coerce_int L v =
     (case py_int L v of
        Inr n \<Rightarrow> Inr n
      | Inl e \<Rightarrow>
          (case e of
             ValueError _ \<Rightarrow> Inl (Invalid ''expected int'')
           | TypeError _ \<Rightarrow> Inl (Invalid ''expected int'')
           | _ \<Rightarrow> Inl e))"

text \<open>\<^verbatim>\<open>vol.Range(min=lo, max=hi)\<close>, both bounds inclusive; \<open>None\<close> is no bound.\<close>

definition range_check :: "int option \<Rightarrow> int option \<Rightarrow> int \<Rightarrow> exn + int" where
  "range_check lo hi n =
     (if (case lo of Some l \<Rightarrow> n < l | None \<Rightarrow> False) then Inl (Invalid ''value must be at least the minimum'')
      else if (case hi of Some h \<Rightarrow> h < n | None \<Rightarrow> False) then Inl (Invalid ''value must be at most the maximum'')
      else Inr n)"

text \<open>\<^verbatim>\<open>cv.positive_int = vol.All(vol.Coerce(int), vol.Range(min=0))\<close>.\<close>

definition positive_int :: "library \<Rightarrow> pyval \<Rightarrow> exn + int" where
  "positive_int L v =
     (case coerce_int L v of
        Inl e \<Rightarrow> Inl e
      | Inr n \<Rightarrow> range_check (Some 0) None n)"

text \<open>The validator of the key \<open>timeout\<close>: \<^verbatim>\<open>vol.All(cv.positive_int, vol.Range(min=1, max=30))\<close>.\<close>

definition timeout_validator :: "library \<Rightarrow> pyval \<Rightarrow> exn + int" where
  "timeout_validator L v =
     (case positive_int L v of
        Inl e \<Rightarrow> Inl e
      | Inr n \<Rightarrow> range_check (Some 1) (Some 30) n)"

text \<open>
  \<^verbatim>\<open>cv.string\<close>: \<^verbatim>\<open>None\<close>, a list and a dict are refused, a string passes, any other value
  is turned into its \<^verbatim>\<open>str()\<close>.
\<close>

definition cv_string :: "library \<Rightarrow> pyval \<Rightarrow> exn + string" where
  "cv_string L v =
     (case v of
        PNone \<Rightarrow> Inl (Invalid ''string value is None'')
      | PStr s \<Rightarrow> Inr s
      | PList _ \<Rightarrow> Inl (Invalid ''value should be a string'')
      | PDict _ \<Rightarrow> Inl (Invalid ''value should be a string'')
      | _ \<Rightarrow> Inr (str_of L v))"

fun is_invalid :: "exn \<Rightarrow> bool" where
  "is_invalid (Invalid _) = True"
| "is_invalid _ = False"

subsection \<open>The schema\<close>

text \<open>One key of the input against \<open>STEP_USER_DATA_SCHEMA\<close>; a key the schema does not name is refused.\<close>

definition validate_item :: "library \<Rightarrow> string \<Rightarrow> pyval \<Rightarrow> exn + pyval" where
  "validate_item L k v =
     (if k = ''username'' then map_sum id PStr (cv_string L v)
      else if k = ''password'' then map_sum id PStr (cv_string L v)
      else if k = ''timeout'' then map_sum id PInt (timeout_validator L v)
      else Inl (Invalid ''extra keys not allowed''))"

text \<open>
  The loop of voluptuous over the items: an \<open>Invalid\<close> is collected and the loop goes on;
  any other exception leaves the schema at once. The result is the list of collected
  messages and the validated items.
\<close>

fun validate_items :: "library \<Rightarrow> (string \<times> pyval) list \<Rightarrow> exn + (string list \<times> (string \<times> pyval) list)" where
  "validate_items L [] = Inr ([], [])"
| "validate_items L ((k, v) # kvs) =
     (case validate_item L k v of
        Inl e \<Rightarrow>
          if is_invalid e
          then (case validate_items L kvs of
                  Inl e' \<Rightarrow> Inl e'
                | Inr (errors, out) \<Rightarrow> Inr (exn_str e # errors, out))
          else Inl e
      | Inr v' \<Rightarrow>
          (case validate_items L kvs of
             Inl e' \<Rightarrow> Inl e'
           | Inr (errors, out) \<Rightarrow> Inr (errors, (k, v') # out)))"

text \<open>
  \<open>STEP_USER_DATA_SCHEMA(user_input)\<close>: the default of \<open>timeout\<close> is put in when the key
  is missing, the items are validated, the required keys that are missing are reported,
  and any collected message makes the call raise \<open>Invalid\<close>.
\<close>

definition STEP_USER_DATA_SCHEMA :: "library \<Rightarrow> (string \<times> pyval) list \<Rightarrow> exn + (string \<times> pyval) list" where
  "STEP_USER_DATA_SCHEMA L user_input =
     (let with_defaults =
            (if map_of user_input ''timeout'' = None then user_input @ [(''timeout'', PInt 5)]
             else user_input)
      in case validate_items L with_defaults of
           Inl e \<Rightarrow> Inl e
         | Inr (errors, out) \<Rightarrow>
             let missing = map (\<lambda>k. ''required key not provided'')
                             (filter (\<lambda>k. map_of user_input k = None) [''username'', ''password''])
             in (case errors @ missing of
                   [] \<Rightarrow> Inr out
                 | m # _ \<Rightarrow> Inl (Invalid m)))"

subsection \<open>The login check\<close>

text \<open>\<open>_map_http_error\<close>, on the status of the error.\<close>

definition map_http_error :: "int \<Rightarrow> string" where
  "map_http_error st =
     (if st = 401 then ''invalid_auth''
      else if st = 403 then ''forbidden''
      else if st = 404 then ''not_found''
      else if st = 429 then ''too_many_requests''
      else if st = 503 then ''service_unavailable''
      else ''unknown_error'')"

text \<open>The body of the \<^verbatim>\<open>try\<close> of \<open>_validate_input\<close> and its two handlers.\<close>

definition validate_input_try :: "exn + response \<Rightarrow> exn + (string \<times> pyval) list" where
  "validate_input_try r =
     (case r of
        Inl e \<Rightarrow> Inl e
      | Inr resp \<Rightarrow>
          (case raise_for_status resp of
             Inl e \<Rightarrow> Inl e
           | Inr _ \<Rightarrow>
               (case json resp of
                  Inl e \<Rightarrow> Inl e
                | Inr login_response \<Rightarrow>
                    (case py_get login_response ''jwt'' PNone of
                       Inl e \<Rightarrow> Inl e
                     | Inr jwt_token \<Rightarrow>
                         if truthy jwt_token
                         then Inr [(''status'', PStr ''success''), (''jwt_token'', jwt_token)]
                         else Inr [(''status'', PStr ''error''), (''error'', PStr ''invalid_auth'')]))))"

definition validate_input :: "exn + response \<Rightarrow> exn + (string \<times> pyval) list" where
  "validate_input r =
     (case validate_input_try r of
        Inr result \<Rightarrow> Inr result
      | Inl e \<Rightarrow>
          (case e of
             ClientResponseError st _ \<Rightarrow> Inr [(''status'', PStr ''error''), (''error'', PStr (map_http_error st))]
           | ContentTypeError st _ \<Rightarrow> Inr [(''status'', PStr ''error''), (''error'', PStr (map_http_error st))]
           | ClientError _ \<Rightarrow> Inr [(''status'', PStr ''error''), (''error'', PStr ''network_error'')]
           | _ \<Rightarrow> Inl e))"

subsection \<open>The user step\<close>

text \<open>\<open>map_error_to_message\<close>; its argument is whatever the result dict holds under \<open>error\<close>.\<close>

definition map_error_to_message :: "pyval \<Rightarrow> string" where
  "map_error_to_message error_code =
     (if error_code = PStr ''invalid_auth'' then ''Invalid username or password.''
      else if error_code = PStr ''service_unavailable''
      then ''The service is currently unavailable. Please try again later.''
      else if error_code = PStr ''network_error'' then ''Network error. Check your internet connection.''
      else if error_code = PStr ''invalid_timeout''
      then ''The timeout value is invalid. Please provide a value between 1 and 30 seconds.''
      else if error_code = PStr ''already_configured''
      then ''This entry is already configured. Please use a different username or update the existing configuration.''
      else if error_code = PStr ''unknown_error'' then ''An unknown error occurred. Please try again.''
      else ''unknown_error'')"

text \<open>
  What the step hands back to Home Assistant: the form again with its \<open>errors\<close> dict, an
  abort with its reason, or a new entry with its title and data.
\<close>

datatype flow_result =
    ShowForm "(string \<times> string) list"
  | Abort string
  | CreateEntry pyval "(string \<times> pyval) list"

text \<open>
  What the environment does during the step: the answer to the login request, what
  \<open>async_set_unique_id\<close> raises if it raises, and whether \<open>_async_current_entries()\<close> is
  non-empty.
\<close>

record flow_env =
  login_reply :: "exn + response"
  unique_id_error :: "exn option"
  has_entries :: bool

text \<open>\<^verbatim>\<open>d[k]\<close> and \<^verbatim>\<open>d[k] = v\<close> on a dict.\<close>

definition dict_item :: "(string \<times> pyval) list \<Rightarrow> string \<Rightarrow> exn + pyval" where
  "dict_item d k = (case map_of d k of None \<Rightarrow> Inl (KeyError (quoted k)) | Some v \<Rightarrow> Inr v)"

definition dict_set :: "(string \<times> pyval) list \<Rightarrow> string \<Rightarrow> pyval \<Rightarrow> (string \<times> pyval) list" where
  "dict_set d k v =
     (if map_of d k = None then d @ [(k, v)]
      else map (\<lambda>kv. if fst kv = k then (k, v) else kv) d)"

text \<open>
  The part of the step after the schema has accepted the input; \<open>title\<close> is the validated
  user name, which becomes the unique id and the title of the entry.
\<close>

definition step_validated ::
  "flow_env \<Rightarrow> (string \<times> pyval) list \<Rightarrow> pyval \<Rightarrow> exn + flow_result" where
  "step_validated env user_input title =
     (case validate_input (login_reply env) of
        Inl e \<Rightarrow> Inl e
      | Inr validation_result \<Rightarrow>
          if dict_get validation_result ''status'' PNone = PStr ''success''
          then
            (let user_input' = dict_set user_input ''jwt_token'' (dict_get validation_result ''jwt_token'' PNone)
             in case unique_id_error env of
                  Some e \<Rightarrow> Inl e
                | None \<Rightarrow>
                    if has_entries env then Inr (Abort ''already_configured'')
                    else Inr (CreateEntry title user_input'))
          else
            Inr (ShowForm [(''base'',
                   map_error_to_message (dict_get validation_result ''error'' (PStr ''unknown_error'')))]))"

text \<open>The body of the \<^verbatim>\<open>try\<close> of \<open>async_step_user\<close>.\<close>

definition step_try :: "library \<Rightarrow> flow_env \<Rightarrow> (string \<times> pyval) list \<Rightarrow> exn + flow_result" where
  "step_try L env user_input =
     (case STEP_USER_DATA_SCHEMA L user_input of
        Inl e \<Rightarrow> Inl e
      | Inr validated_data \<Rightarrow>
          (case dict_item validated_data ''username'' of
             Inl e \<Rightarrow> Inl e
           | Inr user \<Rightarrow>
               (case dict_item validated_data ''password'' of
                  Inl e \<Rightarrow> Inl e
                | Inr pass \<Rightarrow>
                    (case dict_item validated_data ''timeout'' of
                       Inl e \<Rightarrow> Inl e
                     | Inr timeout \<Rightarrow> step_validated env user_input user))))"

text \<open>
  \<open>ConfigFlow.async_step_user\<close>: \<^verbatim>\<open>except vol.Invalid\<close> reports \<open>invalid_input\<close>,
  \<^verbatim>\<open>except Exception\<close> reports \<open>unknown_error\<close> with the text of the exception.
\<close>

definition async_step_user :: "library \<Rightarrow> flow_env \<Rightarrow> (string \<times> pyval) list option \<Rightarrow> flow_result" where
  "async_step_user L env user_input =
     (case user_input of
        None \<Rightarrow> ShowForm []
      | Some ui \<Rightarrow>
          (case step_try L env ui of
             Inr result \<Rightarrow> result
           | Inl e \<Rightarrow>
               if is_invalid e then ShowForm [(''base'', ''invalid_input'')]
               else ShowForm [(''base'', ''unknown_error: '' @ exn_str e)]))"

section \<open>Notions used in the statements\<close>

text \<open>A request is a GET.\<close>

fun is_get :: "request \<Rightarrow> bool" where
  "is_get (Get _ _) = True"
| "is_get (Post _ _) = False"

text \<open>
  When the sensors raise. Both properties look a value up in the first connection of
  an account, and for some keys in the first meter of that connection. \<open>first_dict v\<close>
  is \<^verbatim>\<open>v[0]\<close> for a non-empty list \<open>v\<close> whose first element is a dict. The keys that read
  the first meter are \<open>meter_keys\<close> for a sensor and \<open>meter_flags\<close> for a binary sensor;
  \<open>connection_flags\<close> are the keys of a binary sensor that read the connection.
\<close>

fun first_dict :: "pyval \<Rightarrow> (string \<times> pyval) list option" where
  "first_dict (PList (PDict d # _)) = Some d"
| "first_dict _ = None"

definition meter_keys :: "string list" where
  "meter_keys = [''meter_number'', ''number_of_registers'', ''number_of_phases'']"

definition meter_flags :: "string list" where
  "meter_flags = [''slimmeMeter'', ''geschiktVoorTerugleveren'', ''geschiktVoorDubbeltarief'']"

definition connection_flags :: "string list" where
  "connection_flags = [''contract'', ''toestemmingVoorUitlezen'', ''levertTerug'']"

text \<open>
  The value under \<open>meters\<close> does not make \<open>native_value\<close> raise: it is false (missing,
  \<^verbatim>\<open>null\<close>, empty), or a non-empty list whose first element is a dict when the key reads
  the meter, or a non-empty string when the key does not read the meter.
\<close>

definition nv_meters_ok :: "string \<Rightarrow> pyval \<Rightarrow> bool" where
  "nv_meters_ok key m =
     (if \<not> truthy m then True
      else (case m of
              PList ys \<Rightarrow> (if key \<in> set meter_keys then first_dict m \<noteq> None else True)
            | PStr s \<Rightarrow> key \<notin> set meter_keys
            | _ \<Rightarrow> False))"

text \<open>
  The value under \<open>meters\<close> does not make \<open>is_on\<close> raise: the key does not read the
  meter, or the value is false, or it is a non-empty list whose first element is a dict.
\<close>

definition on_meters_ok :: "string \<Rightarrow> pyval \<Rightarrow> bool" where
  "on_meters_ok key m =
     (if key \<in> set meter_flags \<and> truthy m then first_dict m \<noteq> None else True)"

text \<open>
  The value under \<open>elektra\<close> does not make a property raise: it is false, or a non-empty
  list whose first element is a dict with meters that do not make it raise.
\<close>

definition connections_ok :: "(pyval \<Rightarrow> bool) \<Rightarrow> pyval \<Rightarrow> bool" where
  "connections_ok meters_ok ec =
     (if \<not> truthy ec then True
      else (case first_dict ec of
              None \<Rightarrow> False
            | Some e \<Rightarrow> meters_ok (dict_get e ''meters'' (PList []))))"

text \<open>The value under \<open>aansluitingen\<close> is missing or a dict, with connections as above.\<close>

definition aansluitingen_ok :: "(pyval \<Rightarrow> bool) \<Rightarrow> (string \<times> pyval) list \<Rightarrow> bool" where
  "aansluitingen_ok meters_ok d =
     (case dict_get d ''aansluitingen'' (PDict []) of
        PDict ad \<Rightarrow> connections_ok meters_ok (dict_get ad ''elektra'' (PList []))
      | _ \<Rightarrow> False)"

text \<open>
  An account does not make \<open>native_value\<close> raise: it is a dict, and either the key is
  \<open>address\<close> and the address is a non-empty dict (the property returns before it looks
  at the connections), or the connections do not make it raise.
\<close>

definition nv_account_ok :: "string \<Rightarrow> pyval \<Rightarrow> bool" where
  "nv_account_ok key account =
     (case account of
        PDict d \<Rightarrow>
          (key = ''address'' \<and> truthy (dict_get d ''adres'' (PDict []))
             \<and> is_dict (dict_get d ''adres'' (PDict [])))
          \<or> aansluitingen_ok (nv_meters_ok key) d
      | _ \<Rightarrow> False)"

definition on_account_ok :: "string \<Rightarrow> pyval \<Rightarrow> bool" where
  "on_account_ok key account =
     (case account of
        PDict d \<Rightarrow> aansluitingen_ok (on_meters_ok key) d
      | _ \<Rightarrow> False)"

text \<open>
  The accounts that a loop reaches: it looks at an account, and at the next one only when
  the body goes on after this one.
\<close>

fun reached :: "(pyval \<Rightarrow> bool) \<Rightarrow> pyval list \<Rightarrow> pyval list" where
  "reached goes_on [] = []"
| "reached goes_on (a # accounts) = a # (if goes_on a then reached goes_on accounts else [])"

text \<open>The first connection of an account and the first meter of a connection, where they are dicts.\<close>

definition first_connection :: "pyval \<Rightarrow> (string \<times> pyval) list option" where
  "first_connection account =
     (case account of
        PDict d \<Rightarrow>
          (case dict_get d ''aansluitingen'' (PDict []) of
             PDict ad \<Rightarrow> first_dict (dict_get ad ''elektra'' (PList []))
           | _ \<Rightarrow> None)
      | _ \<Rightarrow> None)"

definition first_meter :: "(string \<times> pyval) list \<Rightarrow> (string \<times> pyval) list option" where
  "first_meter e = first_dict (dict_get e ''meters'' (PList []))"

text \<open>
  The flag that an account stores for a binary sensor: the value under the key in the
  first connection for a key that reads the connection, in the first meter of the first
  connection for a key that reads the meter, \<open>False\<close> where the key is missing there.
\<close>

definition stored_flag :: "string \<Rightarrow> pyval \<Rightarrow> pyval option" where
  "stored_flag bkey account =
     (case first_connection account of
        None \<Rightarrow> None
      | Some e \<Rightarrow>
          if bkey \<in> set connection_flags then Some (dict_get e bkey (PBool False))
          else if bkey \<in> set meter_flags
          then (case first_meter e of
                  None \<Rightarrow> None
                | Some m \<Rightarrow> Some (dict_get m bkey (PBool False)))
          else None)"

text \<open>
  Concrete inputs for running the model. \<open>demo_library\<close> decodes three unsigned tokens,
  with the payloads \<^verbatim>\<open>{}\<close>, \<^verbatim>\<open>{"exp": 1700000000}\<close> and \<^verbatim>\<open>{"exp": -62135596800}\<close> (the
  start of the year 1), and refuses every other string; it turns an integer number of
  seconds into a \<^verbatim>\<open>datetime\<close>.
\<close>

definition demo_coordinator :: coordinator where
  "demo_coordinator =
     \<lparr>username = PStr ''user@example.org'', password = PStr ''secret'', token = PNone,
      token_expiry = None, requests = [], warnings = []\<rparr>"

definition demo_library :: library where
  "demo_library =
     \<lparr>str_of = (\<lambda>v. []),
      int_of_str = (\<lambda>s. None),
      jwt_decode = (\<lambda>tok.
        if tok = PStr ''eyJhbGciOiJub25lIn0.e30.'' then Inr []
        else if tok = PStr ''eyJhbGciOiJub25lIn0.eyJleHAiOjE3MDAwMDAwMDB9.''
        then Inr [(''exp'', PInt 1700000000)]
        else if tok = PStr ''eyJhbGciOiJub25lIn0.eyJleHAiOi02MjEzNTU5NjgwMH0.''
        then Inr [(''exp'', PInt (- 62135596800))]
        else Inl (DecodeError ''Not enough segments'')),
      fromtimestamp = (\<lambda>v.
        case v of
          PInt n \<Rightarrow> Inr (n * 1000000)
        | _ \<Rightarrow> Inl (TypeError ''an integer is required''))\<rparr>"

text \<open>A login that answers 200 with the given value under \<open>jwt\<close>, at the given time.\<close>

definition login_ok :: "pyval \<Rightarrow> clock_reading \<Rightarrow> login_attempt" where
  "login_ok tok now =
     \<lparr>reply = Inr \<lparr>status = 200, status_error = [], json = Inr (PDict [(''jwt'', tok)])\<rparr>,
      clock = now\<rparr>"

definition demo_flow_env :: flow_env where
  "demo_flow_env =
     \<lparr>login_reply = Inr \<lparr>status = 200, status_error = [],
                             json = Inr (PDict [(''jwt'', PStr ''eyJhbGciOiJub25lIn0.e30.'')])\<rparr>,
      unique_id_error = None,
      has_entries = False\<rparr>"

text \<open>A form input with the given timeout.\<close>

definition demo_input :: "pyval \<Rightarrow> (string \<times> pyval) list" where
  "demo_input t = [(''username'', PStr ''user@example.org''), (''password'', PStr ''secret''), (''timeout'', t)]"


section \<open>Properties of the token routine\<close>

subsection \<open>The expiry test\<close>

lemma expired_fields:
  "is_token_expired now c = (r, c') \<Longrightarrow>
     token c' = token c \<and> token_expiry c' = token_expiry c \<and> requests c' = requests c
     \<and> username c' = username c \<and> password c' = password c"
  by (auto simp: is_token_expired_def Let_def split: option.splits sum.splits if_splits)

lemma expired_again:
  "is_token_expired now c = (r, c') \<Longrightarrow> fst (is_token_expired now c') = r"
  by (auto simp: is_token_expired_def Let_def split: option.splits sum.splits if_splits)

lemma expired_in_range:
  assumes "token_expiry c = Some expiry" and "DATETIME_MIN + 1800000000 \<le> expiry"
  shows "is_token_expired now c =
           (Inr (expiry - 300000000 \<le> int now),
            if expiry - 1800000000 \<le> int now
            then c\<lparr>warnings := warnings c @ [''Token is about to expire in less than 30 minutes.'']\<rparr>
            else c)"
  using assms by (simp add: is_token_expired_def datetime_sub_def minutes_def Let_def)

text \<open>
  C1. For every stored expiry time \<open>is_token_expired\<close> should return \<open>True\<close> exactly when
  the current time is at or after the expiry minus five minutes. The code does so for an
  expiry from 30 minutes after the earliest \<^verbatim>\<open>datetime\<close> on (lemma \<open>expired_in_range\<close>),
  but for the earliest \<^verbatim>\<open>datetime\<close>, which a renewal stores for a token with the claim
  \<^verbatim>\<open>"exp": -62135596800\<close>, it returns nothing: the subtraction of the 30 minutes raises
  \<^verbatim>\<open>OverflowError\<close>, at any current time.
\<close>

theorem is_token_expired_overflow:
  "is_token_expired 1700000000000000
       (demo_coordinator\<lparr>token := PStr ''t'', token_expiry := Some (- 62135596800000000)\<rparr>)
     = (Inl (OverflowError ''date value out of range''),
        demo_coordinator\<lparr>token := PStr ''t'', token_expiry := Some (- 62135596800000000)\<rparr>)"
  by (simp add: is_token_expired_def datetime_sub_def DATETIME_MIN_def minutes_def)

subsection \<open>Renewal\<close>

lemma renew_requests:
  "requests (snd (async_renew_token L a c)) = requests c @ [Post API_LOGIN_URL (login_data c)]"
  by (auto simp: async_renew_token_def renew_try_def Let_def split: sum.splits prod.splits if_splits)

lemma renew_handler_update_failed: "\<exists>m. renew_handler e = UpdateFailed m"
  by (cases e) (simp_all add: renew_handler_def)

lemma renew_failure:
  "async_renew_token L a c = (Inl e, c') \<Longrightarrow> \<exists>m. e = UpdateFailed m"
  using renew_handler_update_failed
  by (auto simp: async_renew_token_def Let_def split: sum.splits prod.splits)

lemma renew_try_success:
  "renew_try L a c = (Inr u, c') \<Longrightarrow>
     \<exists>resp d t. reply a = Inr resp \<and> status resp < 400 \<and> json resp = Inr (PDict d)
        \<and> truthy (dict_get d ''jwt'' PNone)
        \<and> decode_expiry L (clock a) (dict_get d ''jwt'' PNone) = Inr t
        \<and> c' = c\<lparr>token := dict_get d ''jwt'' PNone, token_expiry := Some t\<rparr>"
  by (auto simp: renew_try_def raise_for_status_def py_get_def Let_def
           split: sum.splits if_splits pyval.splits)

lemma renew_success:
  "async_renew_token L a c = (Inr u, c') \<Longrightarrow>
     \<exists>resp d t. reply a = Inr resp \<and> status resp < 400 \<and> json resp = Inr (PDict d)
        \<and> truthy (dict_get d ''jwt'' PNone)
        \<and> decode_expiry L (clock a) (dict_get d ''jwt'' PNone) = Inr t
        \<and> c' = c\<lparr>requests := requests c @ [Post API_LOGIN_URL (login_data c)],
                  token := dict_get d ''jwt'' PNone, token_expiry := Some t\<rparr>"
  unfolding async_renew_token_def Let_def
  by (auto split: sum.splits prod.splits dest!: renew_try_success)

text \<open>
  C2. Whatever goes wrong in \<open>_async_renew_token\<close>, the exception that leaves it is an
  \<open>UpdateFailed\<close>; and it completes only when nothing went wrong: the request was
  answered, the status is below 400, the body is a JSON object with a true \<open>jwt\<close> entry,
  and the token was decoded to an expiry. So a network or HTTP error, a body that is not
  JSON or not an object, a missing \<open>jwt\<close>, a decoding error and any other exception all
  end in \<open>UpdateFailed\<close>.
\<close>

theorem renewal_failures_uniform:
  "(\<forall>e. fst (async_renew_token L a c) = Inl e \<longrightarrow> (\<exists>m. e = UpdateFailed m))
   \<and> (fst (async_renew_token L a c) = Inr () \<longrightarrow>
        (\<exists>resp d t. reply a = Inr resp \<and> status resp < 400 \<and> json resp = Inr (PDict d)
           \<and> truthy (dict_get d ''jwt'' PNone)
           \<and> decode_expiry L (clock a) (dict_get d ''jwt'' PNone) = Inr t))"
proof (intro conjI allI impI)
  fix e assume "fst (async_renew_token L a c) = Inl e"
  then obtain c' where "async_renew_token L a c = (Inl e, c')"
    by (cases "async_renew_token L a c") auto
  then show "\<exists>m. e = UpdateFailed m" by (rule renew_failure)
next
  assume ok: "fst (async_renew_token L a c) = Inr ()"
  obtain c' where "async_renew_token L a c = (Inr (), c')"
    using ok by (cases "async_renew_token L a c") auto
  from renew_success [OF this]
  show "\<exists>resp d t. reply a = Inr resp \<and> status resp < 400 \<and> json resp = Inr (PDict d)
           \<and> truthy (dict_get d ''jwt'' PNone)
           \<and> decode_expiry L (clock a) (dict_get d ''jwt'' PNone) = Inr t"
    by blast
qed

theorem renewal_failures_uniform_witness:
  "fst (async_renew_token demo_library \<lparr>reply = Inl (ClientError ''Connection refused''), clock = 0\<rparr>
          demo_coordinator) = Inl (UpdateFailed ''Error renewing token: Connection refused'')
   \<and> fst (async_renew_token demo_library (login_ok (PStr ''garbage'') 0) demo_coordinator)
       = Inl (UpdateFailed ''Unexpected error renewing token: JWT decode error: Not enough segments'')"
  using renewal_failures_uniform [of demo_library
           "\<lparr>reply = Inl (ClientError ''Connection refused''), clock = 0\<rparr>" demo_coordinator]
        renewal_failures_uniform [of demo_library "login_ok (PStr ''garbage'') 0" demo_coordinator]
  by (simp add: async_renew_token_def renew_try_def renew_handler_def decode_handler_def
        decode_expiry_def demo_library_def login_ok_def raise_for_status_def py_get_def
        dict_get_def Let_def)

text \<open>
  C3, as the claim states it, fails for the expiry claim: a login response whose token
  decodes to a payload without \<open>exp\<close> completes the renewal, with the token stored and the
  expiry set to one hour after the time of the renewal.
\<close>

theorem missing_exp_claim_completes:
  "jwt_decode demo_library (PStr ''eyJhbGciOiJub25lIn0.e30.'') = Inr []
   \<and> async_renew_token demo_library (login_ok (PStr ''eyJhbGciOiJub25lIn0.e30.'') 1000) demo_coordinator
     = (Inr (),
        demo_coordinator\<lparr>requests := [Post API_LOGIN_URL (login_data demo_coordinator)],
          token := PStr ''eyJhbGciOiJub25lIn0.e30.'', token_expiry := Some 3600001000\<rparr>)"
  by (simp add: async_renew_token_def renew_try_def demo_library_def login_ok_def demo_coordinator_def
    raise_for_status_def py_get_def dict_get_def decode_expiry_def hours_def login_data_def Let_def)

text \<open>
  C3, amended. For a login response that is a JSON object with a status below 400:
  when it has no \<open>jwt\<close> entry the renewal raises \<open>UpdateFailed\<close>, stores \<^verbatim>\<open>None\<close> as the
  token and leaves the expiry as it was; when its token decodes to a payload without
  \<open>exp\<close> the renewal completes, storing the token and an expiry of one hour
  (3 600 000 000 microseconds) after the current time.
\<close>

theorem missing_claims_renewal:
  assumes "reply a = Inr resp" and "status resp < 400" and "json resp = Inr (PDict d)"
  shows "(map_of d ''jwt'' = None \<longrightarrow>
            async_renew_token L a c =
              (Inl (UpdateFailed ''Unexpected error renewing token: JWT token not found in login response.''),
               c\<lparr>requests := requests c @ [Post API_LOGIN_URL (login_data c)], token := PNone\<rparr>))
       \<and> (\<forall>tok payload. map_of d ''jwt'' = Some tok \<and> truthy tok \<and> jwt_decode L tok = Inr payload
              \<and> map_of payload ''exp'' = None \<longrightarrow>
            async_renew_token L a c =
              (Inr (), c\<lparr>requests := requests c @ [Post API_LOGIN_URL (login_data c)],
                         token := tok, token_expiry := Some (int (clock a) + 3600000000)\<rparr>))"
  using assms
  by (auto simp: async_renew_token_def renew_try_def renew_handler_def raise_for_status_def
        py_get_def dict_get_def decode_expiry_def hours_def Let_def)

theorem missing_claims_renewal_witness:
  "async_renew_token demo_library
      \<lparr>reply = Inr \<lparr>status = 200, status_error = [], json = Inr (PDict [])\<rparr>, clock = 1000\<rparr>
      demo_coordinator
     = (Inl (UpdateFailed ''Unexpected error renewing token: JWT token not found in login response.''),
        demo_coordinator\<lparr>requests := [Post API_LOGIN_URL (login_data demo_coordinator)], token := PNone\<rparr>)
   \<and> async_renew_token demo_library (login_ok (PStr ''eyJhbGciOiJub25lIn0.e30.'') 1000) demo_coordinator
     = (Inr (),
        demo_coordinator\<lparr>requests := [Post API_LOGIN_URL (login_data demo_coordinator)],
          token := PStr ''eyJhbGciOiJub25lIn0.e30.'', token_expiry := Some 3600001000\<rparr>)"
  using missing_claims_renewal [of "\<lparr>reply = Inr \<lparr>status = 200, status_error = [], json = Inr (PDict [])\<rparr>, clock = 1000\<rparr>"
           "\<lparr>status = 200, status_error = [], json = Inr (PDict [])\<rparr>" "[]" demo_library demo_coordinator]
        missing_claims_renewal [of "login_ok (PStr ''eyJhbGciOiJub25lIn0.e30.'') 1000"
           "\<lparr>status = 200, status_error = [], json = Inr (PDict [(''jwt'', PStr ''eyJhbGciOiJub25lIn0.e30.'')])\<rparr>"
           "[(''jwt'', PStr ''eyJhbGciOiJub25lIn0.e30.'')]" demo_library demo_coordinator]
  by (simp add: login_ok_def demo_library_def demo_coordinator_def)


subsection \<open>Getting a token\<close>

lemma renew_if_missing_requests:
  "renew_if_missing L a1 c = (r, c1) \<Longrightarrow>
     requests c1 = requests c \<or> requests c1 = requests c @ [Post API_LOGIN_URL (login_data c)]"
  using renew_requests [of L a1 c] by (auto simp: renew_if_missing_def split: if_splits)

lemma renew_if_missing_failure:
  "renew_if_missing L a1 c = (Inl e, c1) \<Longrightarrow> \<exists>m. e = UpdateFailed m"
  using renew_failure [of L a1 c e c1] by (simp add: renew_if_missing_def split: if_splits)

lemma renew_if_missing_token:
  "renew_if_missing L a1 c = (Inr u, c1) \<Longrightarrow> truthy (token c1)"
  by (auto simp: renew_if_missing_def split: if_splits dest!: renew_success)

lemma gvt_failure:
  assumes "get_valid_token L now a1 a2 c = (Inl e, c')"
  shows "(\<exists>m. e = UpdateFailed m)
       \<or> (\<exists>c1. renew_if_missing L a1 c = (Inr (), c1) \<and> is_token_expired now c1 = (Inl e, c'))"
proof -
  obtain r1 c1 where s1: "renew_if_missing L a1 c = (r1, c1)"
    by (cases "renew_if_missing L a1 c") auto
  show ?thesis
  proof (cases r1)
    case (Inl x)
    with assms s1 have "x = e" by (simp add: get_valid_token_def)
    with Inl s1 renew_if_missing_failure [of L a1 c e c1] show ?thesis by simp
  next
    case (Inr u)
    obtain r2 c2 where s2: "is_token_expired now c1 = (r2, c2)"
      by (cases "is_token_expired now c1") auto
    show ?thesis
    proof (cases r2)
      case (Inl x)
      with assms s1 s2 \<open>r1 = Inr u\<close> have "x = e" "c2 = c'" by (simp_all add: get_valid_token_def)
      with Inl s1 s2 \<open>r1 = Inr u\<close> show ?thesis by simp
    next
      case (Inr b)
      obtain r3 c3 where s3: "(if b then async_renew_token L a2 c2 else (Inr (), c2)) = (r3, c3)"
        by (cases "if b then async_renew_token L a2 c2 else (Inr (), c2)") auto
      from assms s1 s2 s3 \<open>r1 = Inr u\<close> Inr
      have "r3 = Inl e \<or> e = UpdateFailed ''Token is not available after renewal.''"
        by (simp add: get_valid_token_def split: sum.splits if_splits)
      moreover have "\<exists>m. e = UpdateFailed m" if "r3 = Inl e"
        using s3 that renew_failure [of L a2 c2 e c3] by (simp split: if_splits)
      ultimately show ?thesis by blast
    qed
  qed
qed

lemma gvt_success:
  assumes "get_valid_token L now a1 a2 c = (Inr tok, c')"
  shows "tok \<noteq> PNone \<and> truthy tok \<and> token c' = tok
     \<and> (fst (is_token_expired now c') = Inr False
        \<or> (\<exists>c1 c2 t. renew_if_missing L a1 c = (Inr (), c1)
              \<and> is_token_expired now c1 = (Inr True, c2)
              \<and> async_renew_token L a2 c2 = (Inr (), c')
              \<and> token_expiry c' = Some t \<and> decode_expiry L (clock a2) tok = Inr t))"
proof -
  obtain r1 c1 where s1: "renew_if_missing L a1 c = (r1, c1)"
    by (cases "renew_if_missing L a1 c") auto
  obtain r2 c2 where s2: "is_token_expired now c1 = (r2, c2)"
    by (cases "is_token_expired now c1") auto
  from assms s1 have r1: "r1 = Inr ()"
    by (cases r1) (simp_all add: get_valid_token_def)
  from assms s1 s2 r1 obtain b where r2: "r2 = Inr b"
    by (cases r2) (simp_all add: get_valid_token_def)
  obtain r3 c3 where s3: "(if b then async_renew_token L a2 c2 else (Inr (), c2)) = (r3, c3)"
    by (cases "if b then async_renew_token L a2 c2 else (Inr (), c2)") auto
  from assms s1 s2 s3 r1 r2 have r3: "r3 = Inr ()" and tok: "token c3 = tok" "tok \<noteq> PNone"
    and c': "c' = c3"
    by (auto simp: get_valid_token_def split: sum.splits if_splits)
  have t1: "truthy (token c1)" using renew_if_missing_token s1 r1 by blast
  note f2 = expired_fields [OF s2]
  show ?thesis
  proof (cases b)
    case True
    with s3 r3 have rn: "async_renew_token L a2 c2 = (Inr (), c3)" by simp
    from renew_success [OF rn] obtain resp d t where
      d: "truthy (dict_get d ''jwt'' PNone)"
         "decode_expiry L (clock a2) (dict_get d ''jwt'' PNone) = Inr t"
         "c3 = c2\<lparr>requests := requests c2 @ [Post API_LOGIN_URL (login_data c2)],
                  token := dict_get d ''jwt'' PNone, token_expiry := Some t\<rparr>"
      by blast
    then have "token c3 = dict_get d ''jwt'' PNone" "token_expiry c3 = Some t" by simp_all
    with d tok have "truthy tok" "token_expiry c3 = Some t" "decode_expiry L (clock a2) tok = Inr t"
      by simp_all
    moreover have "renew_if_missing L a1 c = (Inr (), c1)" "is_token_expired now c1 = (Inr True, c2)"
      using s1 r1 s2 r2 True by simp_all
    ultimately show ?thesis using tok c' rn by blast
  next
    case False
    with s3 have c3: "c3 = c2" by simp
    have "fst (is_token_expired now c2) = Inr False"
      using expired_again [OF s2] r2 False by simp
    moreover have "truthy tok" using t1 f2 tok c3 by simp
    ultimately show ?thesis using tok c' c3 by simp
  qed
qed

lemma gvt_no_get:
  assumes "get_valid_token L now a1 a2 c = (r, c')"
  shows "filter is_get (requests c') = filter is_get (requests c)"
proof -
  obtain r1 c1 where s1: "renew_if_missing L a1 c = (r1, c1)"
    by (cases "renew_if_missing L a1 c") auto
  obtain r2 c2 where s2: "is_token_expired now c1 = (r2, c2)"
    by (cases "is_token_expired now c1") auto
  obtain b where b: "b = (r2 = Inr True)" by simp
  obtain r3 c3 where s3: "(if b then async_renew_token L a2 c2 else (Inr (), c2)) = (r3, c3)"
    by (cases "if b then async_renew_token L a2 c2 else (Inr (), c2)") auto
  have g1: "filter is_get (requests c1) = filter is_get (requests c)"
    using renew_if_missing_requests [OF s1] by auto
  have g2: "requests c2 = requests c1" using expired_fields [OF s2] by simp
  have g3: "filter is_get (requests c3) = filter is_get (requests c2)"
    using s3 renew_requests [of L a2 c2] by (auto split: if_splits)
  from assms s1 s2 s3 b have "c' = c1 \<or> c' = c2 \<or> c' = c3"
    by (auto simp: get_valid_token_def split: sum.splits if_splits)
  with g1 g2 g3 show ?thesis by auto
qed

text \<open>
  C4. When the current time is at or after the stored expiry minus 30 minutes
  (1 800 000 000 microseconds) and before the stored expiry minus 5 minutes,
  \<open>is_token_expired\<close> writes the warning and returns \<open>False\<close>; and \<open>get_valid_token\<close>,
  with a token stored, returns that token without sending a login request.
\<close>

theorem expiring_warns_and_stays_usable:
  assumes "token_expiry c = Some expiry"
      and "expiry - 1800000000 \<le> int now" and "int now < expiry - 300000000"
  shows "is_token_expired now c =
           (Inr False, c\<lparr>warnings := warnings c @ [''Token is about to expire in less than 30 minutes.'']\<rparr>)
       \<and> (truthy (token c) \<longrightarrow>
            get_valid_token L now a1 a2 c =
              (Inr (token c),
               c\<lparr>warnings := warnings c @ [''Token is about to expire in less than 30 minutes.'']\<rparr>))"
proof -
  have "DATETIME_MIN + 1800000000 \<le> expiry"
    using assms(3) by (simp add: DATETIME_MIN_def)
  from expired_in_range [OF assms(1) this, of now] assms(2,3)
  have e: "is_token_expired now c =
           (Inr False, c\<lparr>warnings := warnings c @ [''Token is about to expire in less than 30 minutes.'']\<rparr>)"
    by simp
  have "get_valid_token L now a1 a2 c =
              (Inr (token c),
               c\<lparr>warnings := warnings c @ [''Token is about to expire in less than 30 minutes.'']\<rparr>)"
    if "truthy (token c)"
  proof -
    from that have "token c \<noteq> PNone" by auto
    with that e show ?thesis by (simp add: get_valid_token_def renew_if_missing_def)
  qed
  with e show ?thesis by blast
qed

theorem expiring_warns_and_stays_usable_witness:
  "is_token_expired 8000000000 (demo_coordinator\<lparr>token := PStr ''t'', token_expiry := Some 9000000000\<rparr>) =
     (Inr False, demo_coordinator\<lparr>token := PStr ''t'', token_expiry := Some 9000000000,
               warnings := [''Token is about to expire in less than 30 minutes.'']\<rparr>)
   \<and> get_valid_token demo_library 8000000000 (login_ok PNone 0) (login_ok PNone 0)
        (demo_coordinator\<lparr>token := PStr ''t'', token_expiry := Some 9000000000\<rparr>) =
     (Inr (PStr ''t''),
      demo_coordinator\<lparr>token := PStr ''t'', token_expiry := Some 9000000000,
               warnings := [''Token is about to expire in less than 30 minutes.'']\<rparr>)"
  using expiring_warns_and_stays_usable [of "demo_coordinator\<lparr>token := PStr ''t'', token_expiry := Some 9000000000\<rparr>"
          9000000000 8000000000 demo_library "login_ok PNone 0" "login_ok PNone 0"]
  by (simp add: demo_coordinator_def)

text \<open>
  C9. With no expiry time stored, \<open>is_token_expired\<close> returns \<open>True\<close> (and writes no
  warning), and \<open>get_valid_token\<close> sends a login request before it returns or raises.
\<close>

theorem no_expiry_is_expired:
  assumes "token_expiry c = None"
  shows "is_token_expired now c = (Inr True, c)
       \<and> (\<exists>rest. requests (snd (get_valid_token L now a1 a2 c))
                    = requests c @ Post API_LOGIN_URL (login_data c) # rest)"
proof -
  have e: "is_token_expired now c = (Inr True, c)"
    using assms by (simp add: is_token_expired_def)
  have "\<exists>rest. requests (snd (get_valid_token L now a1 a2 c))
                    = requests c @ Post API_LOGIN_URL (login_data c) # rest"
  proof (cases "truthy (token c)")
    case True
    obtain r c3 where rn: "async_renew_token L a2 c = (r, c3)"
      by (cases "async_renew_token L a2 c") auto
    have rq: "requests c3 = requests c @ [Post API_LOGIN_URL (login_data c)]"
      using renew_requests [of L a2 c] rn by simp
    have "snd (get_valid_token L now a1 a2 c) = c3"
      using True e rn by (simp add: get_valid_token_def renew_if_missing_def split: sum.splits)
    with rq show ?thesis by simp
  next
    case False
    obtain r1 c1 where rn: "async_renew_token L a1 c = (r1, c1)"
      by (cases "async_renew_token L a1 c") auto
    have rq: "requests c1 = requests c @ [Post API_LOGIN_URL (login_data c)]"
      using renew_requests [of L a1 c] rn by simp
    obtain r2 c2 where s2: "is_token_expired now c1 = (r2, c2)"
      by (cases "is_token_expired now c1") auto
    have rq2: "requests c2 = requests c1" using expired_fields [OF s2] by simp
    obtain r3 c3 where s3: "async_renew_token L a2 c2 = (r3, c3)"
      by (cases "async_renew_token L a2 c2") auto
    have rq3: "requests c3 = requests c2 @ [Post API_LOGIN_URL (login_data c2)]"
      using renew_requests [of L a2 c2] s3 by simp
    have "snd (get_valid_token L now a1 a2 c) = c1 \<or> snd (get_valid_token L now a1 a2 c) = c2
          \<or> snd (get_valid_token L now a1 a2 c) = c3"
      using False rn s2 s3 by (simp add: get_valid_token_def renew_if_missing_def split: sum.splits)
    with rq rq2 rq3 show ?thesis by auto
  qed
  with e show ?thesis by blast
qed

theorem no_expiry_is_expired_witness:
  "token_expiry demo_coordinator = None
   \<and> is_token_expired 5 demo_coordinator = (Inr True, demo_coordinator)
   \<and> requests demo_coordinator = []
   \<and> (\<exists>rest. requests (snd (get_valid_token demo_library 5 (login_ok PNone 0) (login_ok PNone 0) demo_coordinator))
         = Post API_LOGIN_URL (login_data demo_coordinator) # rest)"
  using no_expiry_is_expired [of demo_coordinator 5 demo_library "login_ok PNone 0" "login_ok PNone 0"]
  by (simp add: demo_coordinator_def)


text \<open>The model run on the concrete inputs.\<close>

lemma demo_decode_exp:
  "decode_expiry demo_library n (PStr ''eyJhbGciOiJub25lIn0.eyJleHAiOjE3MDAwMDAwMDB9.'') = Inr 1700000000000000"
  by (simp add: decode_expiry_def demo_library_def dict_get_def)

lemma demo_decode_min:
  "decode_expiry demo_library n (PStr ''eyJhbGciOiJub25lIn0.eyJleHAiOi02MjEzNTU5NjgwMH0.'') = Inr (- 62135596800000000)"
  by (simp add: decode_expiry_def demo_library_def dict_get_def)

lemma renew_login_ok:
  assumes "truthy tok" and "decode_expiry L n tok = Inr t"
  shows "async_renew_token L (login_ok tok n) c =
     (Inr (), c\<lparr>requests := requests c @ [Post API_LOGIN_URL (login_data c)],
                token := tok, token_expiry := Some t\<rparr>)"
  using assms
  by (simp add: async_renew_token_def renew_try_def login_ok_def raise_for_status_def py_get_def
        dict_get_def Let_def)

lemma renew_login_none:
  "async_renew_token L (login_ok PNone n) c =
     (Inl (UpdateFailed ''Unexpected error renewing token: JWT token not found in login response.''),
      c\<lparr>requests := requests c @ [Post API_LOGIN_URL (login_data c)], token := PNone\<rparr>)"
  by (simp add: async_renew_token_def renew_try_def renew_handler_def login_ok_def raise_for_status_def py_get_def
        dict_get_def Let_def)

lemma gvt_demo_stored:
  "get_valid_token L 0 a1 a2 (demo_coordinator\<lparr>token := PStr ''t'', token_expiry := Some 9000000000\<rparr>)
     = (Inr (PStr ''t''), demo_coordinator\<lparr>token := PStr ''t'', token_expiry := Some 9000000000\<rparr>)"
  by (simp add: get_valid_token_def renew_if_missing_def is_token_expired_def datetime_sub_def
        DATETIME_MIN_def minutes_def)

lemma gvt_demo_none:
  "get_valid_token L 0 (login_ok PNone 0) a2 demo_coordinator
     = (Inl (UpdateFailed ''Unexpected error renewing token: JWT token not found in login response.''),
        demo_coordinator\<lparr>requests := [Post API_LOGIN_URL (login_data demo_coordinator)], token := PNone\<rparr>)"
proof -
  have "token demo_coordinator = PNone" "requests demo_coordinator = []"
    by (simp_all add: demo_coordinator_def)
  then show ?thesis by (simp add: get_valid_token_def renew_if_missing_def renew_login_none)
qed

lemma gvt_demo_min:
  "get_valid_token demo_library now
      (login_ok (PStr ''eyJhbGciOiJub25lIn0.eyJleHAiOi02MjEzNTU5NjgwMH0.'') n) a2 demo_coordinator
    = (Inl (OverflowError ''date value out of range''),
       demo_coordinator\<lparr>
         requests := [Post API_LOGIN_URL (login_data demo_coordinator)],
         token := PStr ''eyJhbGciOiJub25lIn0.eyJleHAiOi02MjEzNTU5NjgwMH0.'',
         token_expiry := Some (- 62135596800000000)\<rparr>)"
proof -
  have t: "truthy (PStr ''eyJhbGciOiJub25lIn0.eyJleHAiOi02MjEzNTU5NjgwMH0.'')" by simp
  note rn = renew_login_ok [OF t demo_decode_min]
  have "token demo_coordinator = PNone" "requests demo_coordinator = []"
    by (simp_all add: demo_coordinator_def)
  then show ?thesis
    by (simp add: get_valid_token_def renew_if_missing_def rn is_token_expired_def datetime_sub_def
          DATETIME_MIN_def minutes_def login_data_def)
qed

text \<open>
  C6, as the claim states it, fails after the second renewal: the expiry of the token it
  brings is not tested. A token that the provider issues with an expiry equal to the time
  of the call is handed out, although \<open>is_token_expired\<close> is \<open>True\<close> for the stored expiry.
\<close>

theorem fresh_token_may_be_expired:
  "get_valid_token demo_library 1700000000000000
      (login_ok (PStr ''eyJhbGciOiJub25lIn0.eyJleHAiOjE3MDAwMDAwMDB9.'') 1700000000000000)
      (login_ok (PStr ''eyJhbGciOiJub25lIn0.eyJleHAiOjE3MDAwMDAwMDB9.'') 1700000000000000)
      demo_coordinator
    = (Inr (PStr ''eyJhbGciOiJub25lIn0.eyJleHAiOjE3MDAwMDAwMDB9.''),
       demo_coordinator\<lparr>
         requests := [Post API_LOGIN_URL (login_data demo_coordinator),
                      Post API_LOGIN_URL (login_data demo_coordinator)],
         token := PStr ''eyJhbGciOiJub25lIn0.eyJleHAiOjE3MDAwMDAwMDB9.'',
         token_expiry := Some 1700000000000000,
         warnings := [''Token is about to expire in less than 30 minutes.'']\<rparr>)
   \<and> fst (is_token_expired 1700000000000000
        (demo_coordinator\<lparr>
         requests := [Post API_LOGIN_URL (login_data demo_coordinator),
                      Post API_LOGIN_URL (login_data demo_coordinator)],
         token := PStr ''eyJhbGciOiJub25lIn0.eyJleHAiOjE3MDAwMDAwMDB9.'',
         token_expiry := Some 1700000000000000,
         warnings := [''Token is about to expire in less than 30 minutes.'']\<rparr>)) = Inr True"
proof -
  have t: "truthy (PStr ''eyJhbGciOiJub25lIn0.eyJleHAiOjE3MDAwMDAwMDB9.'')" by simp
  note rn = renew_login_ok [OF t demo_decode_exp]
  have "token demo_coordinator = PNone" "requests demo_coordinator = []" "warnings demo_coordinator = []"
    by (simp_all add: demo_coordinator_def)
  then show ?thesis
    by (simp add: get_valid_token_def renew_if_missing_def rn is_token_expired_def datetime_sub_def
          DATETIME_MIN_def minutes_def login_data_def)
qed

text \<open>
  C6, amended. A token that \<open>get_valid_token\<close> returns is never \<^verbatim>\<open>None\<close> (nor otherwise
  false) and is the stored token. It is not expired at the time of the test, also when
  the first renewal brought it, unless the expiry test said expired and the second
  renewal ran: then the token is the one of that login response and the stored expiry is
  the one decoded from it, which is not tested. When \<open>get_valid_token\<close> raises an
  exception that the expiry test itself did not raise, the exception is \<open>UpdateFailed\<close>.
\<close>

theorem valid_token_returned:
  "(\<forall>tok c'. get_valid_token L now a1 a2 c = (Inr tok, c') \<longrightarrow>
       tok \<noteq> PNone \<and> truthy tok \<and> token c' = tok
       \<and> (fst (is_token_expired now c') = Inr False
          \<or> (\<exists>c1 c2 t. renew_if_missing L a1 c = (Inr (), c1)
                \<and> is_token_expired now c1 = (Inr True, c2)
                \<and> async_renew_token L a2 c2 = (Inr (), c')
                \<and> token_expiry c' = Some t \<and> decode_expiry L (clock a2) tok = Inr t)))
   \<and> (\<forall>e c'. get_valid_token L now a1 a2 c = (Inl e, c') \<longrightarrow>
         (\<exists>m. e = UpdateFailed m)
         \<or> (\<exists>c1. renew_if_missing L a1 c = (Inr (), c1) \<and> is_token_expired now c1 = (Inl e, c')))"
proof (rule conjI)
  show "\<forall>e c'. get_valid_token L now a1 a2 c = (Inl e, c') \<longrightarrow>
         (\<exists>m. e = UpdateFailed m)
         \<or> (\<exists>c1. renew_if_missing L a1 c = (Inr (), c1) \<and> is_token_expired now c1 = (Inl e, c'))"
    using gvt_failure [of L now a1 a2 c] by blast
next
  show "\<forall>tok c'. get_valid_token L now a1 a2 c = (Inr tok, c') \<longrightarrow>
       tok \<noteq> PNone \<and> truthy tok \<and> token c' = tok
       \<and> (fst (is_token_expired now c') = Inr False
          \<or> (\<exists>c1 c2 t. renew_if_missing L a1 c = (Inr (), c1)
                \<and> is_token_expired now c1 = (Inr True, c2)
                \<and> async_renew_token L a2 c2 = (Inr (), c')
                \<and> token_expiry c' = Some t \<and> decode_expiry L (clock a2) tok = Inr t))"
  proof (intro allI impI)
    fix tok c' assume "get_valid_token L now a1 a2 c = (Inr tok, c')"
    then show "tok \<noteq> PNone \<and> truthy tok \<and> token c' = tok
       \<and> (fst (is_token_expired now c') = Inr False
          \<or> (\<exists>c1 c2 t. renew_if_missing L a1 c = (Inr (), c1)
                \<and> is_token_expired now c1 = (Inr True, c2)
                \<and> async_renew_token L a2 c2 = (Inr (), c')
                \<and> token_expiry c' = Some t \<and> decode_expiry L (clock a2) tok = Inr t))"
      by (rule gvt_success)
  qed
qed

lemma gvt_demo_fresh:
  "get_valid_token demo_library 0
      (login_ok (PStr ''eyJhbGciOiJub25lIn0.eyJleHAiOjE3MDAwMDAwMDB9.'') 0) a2 demo_coordinator
    = (Inr (PStr ''eyJhbGciOiJub25lIn0.eyJleHAiOjE3MDAwMDAwMDB9.''),
       demo_coordinator\<lparr>
         requests := [Post API_LOGIN_URL (login_data demo_coordinator)],
         token := PStr ''eyJhbGciOiJub25lIn0.eyJleHAiOjE3MDAwMDAwMDB9.'',
         token_expiry := Some 1700000000000000\<rparr>)"
proof -
  have t: "truthy (PStr ''eyJhbGciOiJub25lIn0.eyJleHAiOjE3MDAwMDAwMDB9.'')" by simp
  note rn = renew_login_ok [OF t demo_decode_exp]
  have "token demo_coordinator = PNone" "requests demo_coordinator = []"
    by (simp_all add: demo_coordinator_def)
  then show ?thesis
    by (simp add: get_valid_token_def renew_if_missing_def rn is_token_expired_def datetime_sub_def
          DATETIME_MIN_def minutes_def login_data_def)
qed

theorem valid_token_returned_witness:
  "get_valid_token demo_library 0
      (login_ok (PStr ''eyJhbGciOiJub25lIn0.eyJleHAiOjE3MDAwMDAwMDB9.'') 0) (login_ok PNone 0) demo_coordinator
    = (Inr (PStr ''eyJhbGciOiJub25lIn0.eyJleHAiOjE3MDAwMDAwMDB9.''),
       demo_coordinator\<lparr>
         requests := [Post API_LOGIN_URL (login_data demo_coordinator)],
         token := PStr ''eyJhbGciOiJub25lIn0.eyJleHAiOjE3MDAwMDAwMDB9.'',
         token_expiry := Some 1700000000000000\<rparr>)
   \<and> fst (is_token_expired 0
        (demo_coordinator\<lparr>
         requests := [Post API_LOGIN_URL (login_data demo_coordinator)],
         token := PStr ''eyJhbGciOiJub25lIn0.eyJleHAiOjE3MDAwMDAwMDB9.'',
         token_expiry := Some 1700000000000000\<rparr>)) = Inr False
   \<and> get_valid_token demo_library 0 (login_ok PNone 0) (login_ok PNone 0) demo_coordinator
     = (Inl (UpdateFailed ''Unexpected error renewing token: JWT token not found in login response.''),
        demo_coordinator\<lparr>requests := [Post API_LOGIN_URL (login_data demo_coordinator)], token := PNone\<rparr>)"
  using valid_token_returned [of demo_library 0
          "login_ok (PStr ''eyJhbGciOiJub25lIn0.eyJleHAiOjE3MDAwMDAwMDB9.'') 0" "login_ok PNone 0" demo_coordinator]
        valid_token_returned [of demo_library 0 "login_ok PNone 0" "login_ok PNone 0" demo_coordinator]
        gvt_demo_fresh [of "login_ok PNone 0"]
        gvt_demo_none [of demo_library "login_ok PNone 0"]
  by (simp add: is_token_expired_def datetime_sub_def DATETIME_MIN_def minutes_def)

subsection \<open>Polling\<close>

lemma fetch_handler_update_failed: "\<exists>m. fetch_handler e = UpdateFailed m"
  by (cases e) (simp_all add: fetch_handler_def)

lemma fetch_try_good:
  "status resp < 400 \<Longrightarrow> fetch_try (Inr resp) = json resp"
  by (simp add: fetch_try_def raise_for_status_def)

lemma update_with_token:
  assumes "get_valid_token L now a1 a2 c = (Inr tok, c1)"
  shows "async_update_data L now a1 a2 fetched c =
           (case fetch_try fetched of Inl e \<Rightarrow> Inl (fetch_handler e) | Inr data \<Rightarrow> Inr data,
            c1\<lparr>requests := requests c1 @
                  [Get API_AANSLUITINGEN_URL [(''Authorization'', ''Bearer '' @ py_format L tok)]]\<rparr>)"
  using assms by (simp add: async_update_data_def Let_def split: sum.splits)

lemma update_without_token:
  assumes "get_valid_token L now a1 a2 c = (Inl e, c1)"
  shows "async_update_data L now a1 a2 fetched c = (Inl e, c1)"
  using assms by (simp add: async_update_data_def)

lemma update_good_response:
  assumes "get_valid_token L now a1 a2 c = (Inr tok, c1)"
    and "status resp < 400" and "json resp = Inr data"
  shows "async_update_data L now a1 a2 (Inr resp) c =
           (Inr data,
            c1\<lparr>requests := requests c1 @
                  [Get API_AANSLUITINGEN_URL [(''Authorization'', ''Bearer '' @ py_format L tok)]]\<rparr>)"
  using assms by (simp add: update_with_token fetch_try_good)

lemma update_failure:
  assumes "async_update_data L now a1 a2 fetched c = (Inl e, c')"
  shows "(\<exists>m. e = UpdateFailed m)
       \<or> (\<exists>c1. renew_if_missing L a1 c = (Inr (), c1) \<and> is_token_expired now c1 = (Inl e, c'))"
proof -
  obtain r c1 where g: "get_valid_token L now a1 a2 c = (r, c1)"
    by (cases "get_valid_token L now a1 a2 c") auto
  show ?thesis
  proof (cases r)
    case (Inl x)
    with g assms have "x = e" "c1 = c'" by (simp_all add: update_without_token)
    with g Inl gvt_failure [of L now a1 a2 c e c'] show ?thesis by simp
  next
    case (Inr tok)
    with g assms have "(case fetch_try fetched of Inl e \<Rightarrow> Inl (fetch_handler e) | Inr data \<Rightarrow> Inr data) = Inl e"
      by (simp add: update_with_token)
    then obtain x where "e = fetch_handler x" by (cases "fetch_try fetched") auto
    with fetch_handler_update_failed [of x] show ?thesis by simp
  qed
qed

text \<open>
  C7. Every exception that leaves \<open>_async_update_data\<close> should be \<open>UpdateFailed\<close>, and
  it is for every failure of the login and of the GET (lemma \<open>update_failure\<close>); a
  response with a status below 400 and a JSON body gives that body, after one GET with
  the token in the header (lemma \<open>update_good_response\<close>). But the call of
  \<open>get_valid_token\<close> stands outside the \<^verbatim>\<open>try\<close>: when the login brings a token with the
  claim \<^verbatim>\<open>"exp": -62135596800\<close>, the expiry test that follows the renewal raises
  \<^verbatim>\<open>OverflowError\<close>, and this exception leaves \<open>_async_update_data\<close> as it is. No GET is
  issued and the payload that the server would have given is not returned.
\<close>

theorem update_overflow_escapes:
  "async_update_data demo_library 1700000000000000
      (login_ok (PStr ''eyJhbGciOiJub25lIn0.eyJleHAiOi02MjEzNTU5NjgwMH0.'') 1700000000000000)
      (login_ok PNone 1700000000000000)
      (Inr \<lparr>status = 200, status_error = [], json = Inr example_data\<rparr>)
      demo_coordinator
    = (Inl (OverflowError ''date value out of range''),
       demo_coordinator\<lparr>
         requests := [Post API_LOGIN_URL (login_data demo_coordinator)],
         token := PStr ''eyJhbGciOiJub25lIn0.eyJleHAiOi02MjEzNTU5NjgwMH0.'',
         token_expiry := Some (- 62135596800000000)\<rparr>)"
  by (simp add: async_update_data_def gvt_demo_min)


section \<open>Properties of the configuration flow\<close>

subsection \<open>The validators\<close>

lemma py_int_errors:
  "py_int L v = Inl e \<Longrightarrow> (\<exists>m. e = ValueError m) \<or> (\<exists>m. e = TypeError m) \<or> (\<exists>m. e = OverflowError m)"
  by (auto simp: py_int_def split: pyval.splits pyfloat.splits option.splits)

lemma coerce_int_rejects:
  "coerce_int L v = Inl e \<Longrightarrow> is_invalid e \<or> (\<exists>m. e = OverflowError m \<and> py_int L v = Inl (OverflowError m))"
  by (auto simp: coerce_int_def split: sum.splits exn.splits dest: py_int_errors)

lemma range_check_rejects: "range_check lo hi n = Inl e \<Longrightarrow> is_invalid e"
  by (auto simp: range_check_def split: option.splits if_splits)

lemma coerce_int_Inr: "coerce_int L v = Inr n \<longleftrightarrow> py_int L v = Inr n"
  by (cases "py_int L v") (auto simp: coerce_int_def split: exn.splits)

lemma positive_int_accepts:
  "positive_int L v = Inr n \<longleftrightarrow> py_int L v = Inr n \<and> 0 \<le> n"
proof (cases "coerce_int L v")
  case (Inl e)
  then have "\<forall>k. py_int L v \<noteq> Inr k" using coerce_int_Inr [of L v] by auto
  with Inl show ?thesis by (simp add: positive_int_def)
next
  case (Inr k)
  then have "py_int L v = Inr k" using coerce_int_Inr [of L v k] by simp
  with Inr show ?thesis by (auto simp: positive_int_def range_check_def)
qed

lemma timeout_validator_accepts:
  "timeout_validator L v = Inr n \<longleftrightarrow> py_int L v = Inr n \<and> 1 \<le> n \<and> n \<le> 30"
proof (cases "positive_int L v")
  case (Inl e)
  then have "\<forall>k. \<not> (py_int L v = Inr k \<and> 0 \<le> k)" using positive_int_accepts [of L v] by auto
  with Inl show ?thesis by (auto simp: timeout_validator_def)
next
  case (Inr k)
  then have "py_int L v = Inr k" using positive_int_accepts [of L v k] by simp
  with Inr show ?thesis by (auto simp: timeout_validator_def range_check_def)
qed

lemma timeout_validator_rejects:
  assumes "timeout_validator L v = Inl e"
  shows "is_invalid e \<or> (\<exists>m. e = OverflowError m \<and> py_int L v = Inl (OverflowError m))"
  using assms
  by (auto simp: timeout_validator_def positive_int_def split: sum.splits
           dest: coerce_int_rejects range_check_rejects)

lemma cv_string_rejects: "cv_string L v = Inl e \<Longrightarrow> is_invalid e"
  by (auto simp: cv_string_def split: pyval.splits)

lemma validate_item_rejects:
  assumes "validate_item L k v = Inl e"
  shows "is_invalid e \<or> (k = ''timeout'' \<and> (\<exists>m. e = OverflowError m \<and> py_int L v = Inl (OverflowError m)))"
proof -
  have m: "map_sum id f r = Inl e \<Longrightarrow> r = Inl e" for f :: "'a \<Rightarrow> pyval" and r
    by (cases r) simp_all
  from assms show ?thesis
    by (auto simp: validate_item_def split: if_splits dest!: m dest: cv_string_rejects timeout_validator_rejects)
qed

lemma validate_item_timeout:
  "validate_item L ''timeout'' v = Inr w \<longleftrightarrow> (\<exists>n. w = PInt n \<and> py_int L v = Inr n \<and> 1 \<le> n \<and> n \<le> 30)"
proof -
  have "validate_item L ''timeout'' v = map_sum id PInt (timeout_validator L v)"
    by (simp add: validate_item_def)
  then show ?thesis
    using timeout_validator_accepts [of L v]
    by (cases "timeout_validator L v") auto
qed

subsection \<open>The schema and the user step\<close>

lemma validate_items_clean:
  "validate_items L kvs = Inr ([], out) \<Longrightarrow>
     map fst out = map fst kvs
     \<and> (\<forall>k w. map_of out k = Some w \<longrightarrow> (\<exists>v. map_of kvs k = Some v \<and> validate_item L k v = Inr w))"
proof (induction kvs arbitrary: out)
  case Nil
  then show ?case by simp
next
  case (Cons kv kvs)
  obtain k v where kv: "kv = (k, v)" by (cases kv)
  from Cons.prems kv obtain w out' where
    w: "validate_item L k v = Inr w" and r: "validate_items L kvs = Inr ([], out')" and o: "out = (k, w) # out'"
    by (auto split: sum.splits if_splits prod.splits)
  from Cons.IH [OF r] w o kv show ?case by auto
qed

lemma validate_items_error_collected:
  "validate_items L kvs = Inr (errs, out) \<Longrightarrow> (k, v) \<in> set kvs \<Longrightarrow> validate_item L k v = Inl e
     \<Longrightarrow> errs \<noteq> []"
proof (induction kvs arbitrary: errs out)
  case Nil
  then show ?case by simp
next
  case (Cons kv kvs)
  obtain k' v' where kv: "kv = (k', v')" by (cases kv)
  show ?case
  proof (cases "(k, v) = (k', v')")
    case True
    with Cons.prems kv show ?thesis
      by (auto split: sum.splits if_splits prod.splits)
  next
    case False
    with Cons.prems kv have m: "(k, v) \<in> set kvs" by auto
    from Cons.prems(1) kv obtain errs' out' where r: "validate_items L kvs = Inr (errs', out')"
      and "errs = errs' \<or> (\<exists>x. errs = x # errs')"
      by (auto split: sum.splits if_splits prod.splits)
    with Cons.IH [OF r m Cons.prems(3)] show ?thesis by auto
  qed
qed

lemma validate_items_raises:
  "validate_items L kvs = Inl e \<Longrightarrow>
     \<exists>k v. (k, v) \<in> set kvs \<and> validate_item L k v = Inl e \<and> \<not> is_invalid e"
proof (induction kvs)
  case Nil
  then show ?case by simp
next
  case (Cons kv kvs)
  obtain k v where kv: "kv = (k, v)" by (cases kv)
  from Cons.prems kv have "(validate_item L k v = Inl e \<and> \<not> is_invalid e) \<or> validate_items L kvs = Inl e"
    by (auto split: sum.splits if_splits prod.splits)
  with Cons.IH kv show ?case by auto
qed

lemma schema_accepts:
  assumes "STEP_USER_DATA_SCHEMA L ui = Inr out"
  shows "\<exists>n. map_of out ''timeout'' = Some (PInt n) \<and> 1 \<le> n \<and> n \<le> 30
            \<and> (case map_of ui ''timeout'' of None \<Rightarrow> n = 5 | Some v \<Rightarrow> py_int L v = Inr n)"
proof -
  define wd where "wd = (if map_of ui ''timeout'' = None then ui @ [(''timeout'', PInt 5)] else ui)"
  from assms have vi: "validate_items L wd = Inr ([], out)"
    unfolding STEP_USER_DATA_SCHEMA_def Let_def wd_def [symmetric]
    by (auto split: sum.splits prod.splits list.splits)
  note cl = validate_items_clean [OF vi]
  have "''timeout'' \<in> fst ` set wd"
    by (auto simp: wd_def map_of_eq_None_iff)
  then have "''timeout'' \<in> fst ` set out" using cl by (metis set_map)
  then obtain w where w: "map_of out ''timeout'' = Some w"
    by (metis map_of_eq_None_iff not_Some_eq)
  with cl obtain v where v: "map_of wd ''timeout'' = Some v" "validate_item L ''timeout'' v = Inr w"
    by blast
  from v(2) obtain n where n: "w = PInt n" "py_int L v = Inr n" "1 \<le> n" "n \<le> 30"
    using validate_item_timeout [of L v w] by blast
  have "case map_of ui ''timeout'' of None \<Rightarrow> n = 5 | Some v \<Rightarrow> py_int L v = Inr n"
  proof (cases "map_of ui ''timeout''")
    case None
    with v(1) have "v = PInt 5" by (simp add: wd_def map_add_Some_iff)
    with n(2) None show ?thesis by (simp add: py_int_def)
  next
    case (Some u)
    with v(1) have "v = u" by (simp add: wd_def)
    with n(2) Some show ?thesis by simp
  qed
  with w n show ?thesis by blast
qed

lemma schema_rejects:
  assumes d: "distinct (map fst ui)" and t: "map_of ui ''timeout'' = Some v"
      and bad: "\<forall>n. py_int L v = Inr n \<longrightarrow> n < 1 \<or> 30 < n"
  shows "\<exists>e. STEP_USER_DATA_SCHEMA L ui = Inl e
            \<and> (is_invalid e \<or> (\<exists>m. py_int L v = Inl (OverflowError m)))"
proof -
  have wd: "(if map_of ui ''timeout'' = None then ui @ [(''timeout'', PInt 5)] else ui) = ui"
    using t by simp
  have mem: "(''timeout'', v) \<in> set ui" using t by (rule map_of_SomeD)
  have "\<forall>w. validate_item L ''timeout'' v \<noteq> Inr w"
    using validate_item_timeout [of L v] bad by force
  then obtain e0 where e0: "validate_item L ''timeout'' v = Inl e0"
    by (cases "validate_item L ''timeout'' v") auto
  show ?thesis
  proof (cases "validate_items L ui")
    case (Inl e)
    from validate_items_raises [OF Inl] obtain k v' where
      kv: "(k, v') \<in> set ui" "validate_item L k v' = Inl e" "\<not> is_invalid e" by blast
    from validate_item_rejects [OF kv(2)] kv(3) obtain m where
      "k = ''timeout''" "py_int L v' = Inl (OverflowError m)" by blast
    moreover from this kv(1) d t have "v' = v" by (simp add: map_of_is_SomeI)
    ultimately have "\<exists>m. py_int L v = Inl (OverflowError m)" by blast
    moreover have "STEP_USER_DATA_SCHEMA L ui = Inl e"
      using Inl by (simp add: STEP_USER_DATA_SCHEMA_def wd)
    ultimately show ?thesis by blast
  next
    case (Inr p)
    obtain errs out where p: "p = (errs, out)" by (cases p)
    from validate_items_error_collected [OF Inr [unfolded p] mem e0] have "errs \<noteq> []" .
    then obtain m ms where "errs = m # ms" by (cases errs) auto
    then have "STEP_USER_DATA_SCHEMA L ui = Inl (Invalid m)"
      using Inr p by (simp add: STEP_USER_DATA_SCHEMA_def wd Let_def)
    then show ?thesis by simp
  qed
qed

lemma step_schema_rejected:
  assumes "STEP_USER_DATA_SCHEMA L ui = Inl e"
  shows "async_step_user L env (Some ui) =
           ShowForm [(''base'', if is_invalid e then ''invalid_input'' else ''unknown_error: '' @ exn_str e)]"
  using assms by (simp add: async_step_user_def step_try_def)

lemma validate_item_overflow:
  assumes "py_int L v = Inl (OverflowError m)"
  shows "validate_item L ''timeout'' v = Inl (OverflowError m)"
  using assms
  by (simp add: validate_item_def timeout_validator_def positive_int_def coerce_int_def)

lemma validate_item_invalid:
  assumes "\<forall>n. py_int L v = Inr n \<longrightarrow> n < 1 \<or> 30 < n" and "\<forall>m. py_int L v \<noteq> Inl (OverflowError m)"
  shows "\<exists>m. validate_item L ''timeout'' v = Inl (Invalid m)"
proof -
  have "\<forall>w. validate_item L ''timeout'' v \<noteq> Inr w"
    using validate_item_timeout [of L v] assms(1) by force
  then obtain e where e: "validate_item L ''timeout'' v = Inl e"
    by (cases "validate_item L ''timeout'' v") auto
  from validate_item_rejects [OF e] assms(2) have "is_invalid e" by auto
  then show ?thesis using e by (cases e) auto
qed

lemma validate_items_raise_exists:
  "(k, v) \<in> set kvs \<Longrightarrow> validate_item L k v = Inl e \<Longrightarrow> \<not> is_invalid e
     \<Longrightarrow> \<exists>e'. validate_items L kvs = Inl e'"
proof (induction kvs)
  case Nil
  then show ?case by simp
next
  case (Cons kv kvs)
  obtain k' v' where kv: "kv = (k', v')" by (cases kv)
  show ?case
  proof (cases "(k, v) = (k', v')")
    case True
    with Cons.prems kv show ?thesis by simp
  next
    case False
    with Cons.prems kv have "(k, v) \<in> set kvs" by auto
    from Cons.IH [OF this Cons.prems(2,3)] obtain e' where "validate_items L kvs = Inl e'" by blast
    then show ?thesis using kv
      by (cases "validate_item L k' v'") (auto split: sum.splits)
  qed
qed

lemma validate_items_all_ok:
  "(\<forall>kv \<in> set kvs. \<exists>w. validate_item L (fst kv) (snd kv) = Inr w)
     \<Longrightarrow> \<exists>out. validate_items L kvs = Inr ([], out)"
proof (induction kvs)
  case Nil
  then show ?case by simp
next
  case (Cons kv kvs)
  obtain k v where kv: "kv = (k, v)" by (cases kv)
  from Cons.prems kv obtain w where w: "validate_item L k v = Inr w" by auto
  from Cons.prems have "\<forall>kv \<in> set kvs. \<exists>w. validate_item L (fst kv) (snd kv) = Inr w" by simp
  from Cons.IH [OF this] obtain out where "validate_items L kvs = Inr ([], out)" by blast
  with w kv show ?case by simp
qed

lemma schema_overflow:
  assumes d: "distinct (map fst ui)" and t: "map_of ui ''timeout'' = Some v"
      and o: "py_int L v = Inl (OverflowError m)"
  shows "STEP_USER_DATA_SCHEMA L ui = Inl (OverflowError m)"
proof -
  have wd: "(if map_of ui ''timeout'' = None then ui @ [(''timeout'', PInt 5)] else ui) = ui"
    using t by simp
  have mem: "(''timeout'', v) \<in> set ui" using t by (rule map_of_SomeD)
  from validate_items_raise_exists [OF mem validate_item_overflow [OF o]]
  obtain e' where e': "validate_items L ui = Inl e'" by auto
  from validate_items_raises [OF e'] obtain k v' where
    kv: "(k, v') \<in> set ui" "validate_item L k v' = Inl e'" "\<not> is_invalid e'" by blast
  from validate_item_rejects [OF kv(2)] kv(3) obtain m' where
    m': "k = ''timeout''" "e' = OverflowError m'" "py_int L v' = Inl (OverflowError m')" by blast
  from m'(1) kv(1) d t have "v' = v" by (simp add: map_of_is_SomeI)
  with m' o have "e' = OverflowError m" by simp
  with e' show ?thesis by (simp add: STEP_USER_DATA_SCHEMA_def wd)
qed

lemma schema_invalid:
  assumes d: "distinct (map fst ui)" and t: "map_of ui ''timeout'' = Some v"
      and bad: "\<forall>n. py_int L v = Inr n \<longrightarrow> n < 1 \<or> 30 < n"
      and no: "\<forall>m. py_int L v \<noteq> Inl (OverflowError m)"
  shows "\<exists>m. STEP_USER_DATA_SCHEMA L ui = Inl (Invalid m)"
proof -
  from schema_rejects [OF d t bad] no obtain e where
    "STEP_USER_DATA_SCHEMA L ui = Inl e" "is_invalid e" by blast
  then show ?thesis by (cases e) auto
qed

lemma schema_accepts_good:
  assumes keys: "set (map fst ui) \<subseteq> {''username'', ''password'', ''timeout''}"
      and d: "distinct (map fst ui)"
      and u: "map_of ui ''username'' = Some u" "cv_string L u = Inr us"
      and p: "map_of ui ''password'' = Some p" "cv_string L p = Inr ps"
      and t: "case map_of ui ''timeout'' of None \<Rightarrow> True
              | Some v \<Rightarrow> (\<exists>n. py_int L v = Inr n \<and> 1 \<le> n \<and> n \<le> 30)"
  shows "\<exists>out. STEP_USER_DATA_SCHEMA L ui = Inr out"
proof -
  define wd where "wd = (if map_of ui ''timeout'' = None then ui @ [(''timeout'', PInt 5)] else ui)"
  have item: "\<exists>w. validate_item L (fst kv) (snd kv) = Inr w" if "kv \<in> set ui" for kv
  proof -
    obtain k v where kv: "kv = (k, v)" by (cases kv)
    with that d have m: "map_of ui k = Some v" by (simp add: map_of_is_SomeI)
    from that kv keys have "k = ''username'' \<or> k = ''password'' \<or> k = ''timeout''" by force
    then show ?thesis
    proof (elim disjE)
      assume "k = ''username''"
      with m u kv show ?thesis by (simp add: validate_item_def)
    next
      assume "k = ''password''"
      with m p kv show ?thesis by (simp add: validate_item_def)
    next
      assume k: "k = ''timeout''"
      with m t obtain n where "py_int L v = Inr n" "1 \<le> n" "n \<le> 30" by auto
      then have "validate_item L ''timeout'' v = Inr (PInt n)"
        using validate_item_timeout [of L v "PInt n"] by simp
      with k kv show ?thesis by simp
    qed
  qed
  have dflt: "validate_item L ''timeout'' (PInt 5) = Inr (PInt 5)"
    using validate_item_timeout [of L "PInt 5" "PInt 5"] by (simp add: py_int_def)
  have "\<forall>kv \<in> set wd. \<exists>w. validate_item L (fst kv) (snd kv) = Inr w"
    using item dflt by (auto simp: wd_def)
  from validate_items_all_ok [OF this] obtain out where "validate_items L wd = Inr ([], out)" by blast
  then show ?thesis
    using u(1) p(1) unfolding STEP_USER_DATA_SCHEMA_def Let_def wd_def [symmetric] by simp
qed

text \<open>The model run on the concrete inputs.\<close>

lemma floor_demo: "\<lfloor>61 / 2 :: rat\<rfloor> = 30"
  by (rule floor_unique) simp_all

lemma demo_schema_float:
  "STEP_USER_DATA_SCHEMA L (demo_input (PFloat (Finite (61 / 2))))
     = Inr [(''username'', PStr ''user@example.org''), (''password'', PStr ''secret''), (''timeout'', PInt 30)]"
  by (simp add: STEP_USER_DATA_SCHEMA_def demo_input_def validate_item_def cv_string_def
        timeout_validator_def positive_int_def coerce_int_def py_int_def range_check_def floor_demo Let_def)

lemma demo_schema_default:
  "STEP_USER_DATA_SCHEMA L [(''username'', PStr ''user@example.org''), (''password'', PStr ''secret'')]
     = Inr [(''username'', PStr ''user@example.org''), (''password'', PStr ''secret''), (''timeout'', PInt 5)]"
  by (simp add: STEP_USER_DATA_SCHEMA_def validate_item_def cv_string_def
        timeout_validator_def positive_int_def coerce_int_def py_int_def range_check_def Let_def)

lemma demo_validate_input:
  "validate_input (login_reply demo_flow_env)
     = Inr [(''status'', PStr ''success''), (''jwt_token'', PStr ''eyJhbGciOiJub25lIn0.e30.'')]"
  by (simp add: validate_input_def validate_input_try_def demo_flow_env_def raise_for_status_def
        py_get_def dict_get_def)

lemma demo_step_float:
  "async_step_user L demo_flow_env (Some (demo_input (PFloat (Finite (61 / 2)))))
     = CreateEntry (PStr ''user@example.org'')
         [(''username'', PStr ''user@example.org''), (''password'', PStr ''secret''),
          (''timeout'', PFloat (Finite (61 / 2))), (''jwt_token'', PStr ''eyJhbGciOiJub25lIn0.e30.'')]"
proof -
  have e: "unique_id_error demo_flow_env = None" "has_entries demo_flow_env = False"
    by (simp_all add: demo_flow_env_def)
  show ?thesis
    by (simp add: async_step_user_def step_try_def demo_schema_float dict_item_def
          step_validated_def demo_validate_input dict_get_def e)
       (simp add: demo_input_def dict_set_def)
qed

lemma demo_step_infinite:
  "async_step_user L env (Some (demo_input (PFloat PosInf)))
     = ShowForm [(''base'', ''unknown_error: cannot convert float infinity to integer'')]"
  by (simp add: async_step_user_def step_try_def STEP_USER_DATA_SCHEMA_def demo_input_def
        validate_item_def cv_string_def timeout_validator_def positive_int_def coerce_int_def
        py_int_def Let_def)

text \<open>
  C8, as the claim states it, fails: the schema coerces the timeout with \<^verbatim>\<open>int()\<close> before
  it tests the range. The timeout 30.5 is not an integer and lies outside 1 to 30, yet
  the schema accepts it (as 30) and, the login succeeding, the flow creates the entry.
\<close>

theorem float_timeout_accepted:
  "STEP_USER_DATA_SCHEMA demo_library (demo_input (PFloat (Finite (61 / 2))))
     = Inr [(''username'', PStr ''user@example.org''), (''password'', PStr ''secret''), (''timeout'', PInt 30)]
   \<and> async_step_user demo_library demo_flow_env (Some (demo_input (PFloat (Finite (61 / 2)))))
     = CreateEntry (PStr ''user@example.org'')
         [(''username'', PStr ''user@example.org''), (''password'', PStr ''secret''),
          (''timeout'', PFloat (Finite (61 / 2))), (''jwt_token'', PStr ''eyJhbGciOiJub25lIn0.e30.'')]"
  by (simp only: demo_schema_float demo_step_float simp_thms)

text \<open>
  C8, amended. For an input with distinct keys:
  \<^item> when the schema accepts it, the validated timeout is an integer between 1 and 30,
    namely \<^verbatim>\<open>int()\<close> of the timeout given, or 5 when none is given;
  \<^item> when \<^verbatim>\<open>int()\<close> of the timeout given lies outside 1 to 30 or raises \<^verbatim>\<open>ValueError\<close> or
    \<^verbatim>\<open>TypeError\<close>, the schema raises \<open>Invalid\<close> and the flow shows the form again with the
    error \<open>invalid_input\<close>, creating no entry;
  \<^item> when \<^verbatim>\<open>int()\<close> raises \<^verbatim>\<open>OverflowError\<close> (an infinite float), that exception leaves
    the schema and the flow shows the form again with the error \<open>unknown_error: \<close>
    followed by the text of the exception, creating no entry;
  \<^item> when the input has no other keys than \<open>username\<close>, \<open>password\<close> and \<open>timeout\<close>, the
    first two pass \<open>cv.string\<close>, and the timeout is missing or \<^verbatim>\<open>int()\<close> of it lies
    between 1 and 30, the schema accepts the input.
\<close>

theorem timeout_schema_bounds:
  assumes "distinct (map fst ui)"
  shows "(\<forall>out. STEP_USER_DATA_SCHEMA L ui = Inr out \<longrightarrow>
            (\<exists>n. map_of out ''timeout'' = Some (PInt n) \<and> 1 \<le> n \<and> n \<le> 30
                \<and> (case map_of ui ''timeout'' of None \<Rightarrow> n = 5 | Some v \<Rightarrow> py_int L v = Inr n)))
       \<and> (\<forall>v. map_of ui ''timeout'' = Some v
                \<and> (\<forall>n. py_int L v = Inr n \<longrightarrow> n < 1 \<or> 30 < n)
                \<and> (\<forall>m. py_int L v \<noteq> Inl (OverflowError m)) \<longrightarrow>
            (\<exists>m. STEP_USER_DATA_SCHEMA L ui = Inl (Invalid m))
            \<and> async_step_user L env (Some ui) = ShowForm [(''base'', ''invalid_input'')])
       \<and> (\<forall>v m. map_of ui ''timeout'' = Some v \<and> py_int L v = Inl (OverflowError m) \<longrightarrow>
            STEP_USER_DATA_SCHEMA L ui = Inl (OverflowError m)
            \<and> async_step_user L env (Some ui) = ShowForm [(''base'', ''unknown_error: '' @ m)])
       \<and> (\<forall>u us p ps. set (map fst ui) \<subseteq> {''username'', ''password'', ''timeout''}
                \<and> map_of ui ''username'' = Some u \<and> cv_string L u = Inr us
                \<and> map_of ui ''password'' = Some p \<and> cv_string L p = Inr ps
                \<and> (case map_of ui ''timeout'' of None \<Rightarrow> True
                    | Some v \<Rightarrow> (\<exists>n. py_int L v = Inr n \<and> 1 \<le> n \<and> n \<le> 30)) \<longrightarrow>
            (\<exists>out. STEP_USER_DATA_SCHEMA L ui = Inr out))"
proof (intro conjI)
  show "\<forall>out. STEP_USER_DATA_SCHEMA L ui = Inr out \<longrightarrow>
            (\<exists>n. map_of out ''timeout'' = Some (PInt n) \<and> 1 \<le> n \<and> n \<le> 30
                \<and> (case map_of ui ''timeout'' of None \<Rightarrow> n = 5 | Some v \<Rightarrow> py_int L v = Inr n))"
    using schema_accepts [of L ui] by blast
next
  show "\<forall>v. map_of ui ''timeout'' = Some v
                \<and> (\<forall>n. py_int L v = Inr n \<longrightarrow> n < 1 \<or> 30 < n)
                \<and> (\<forall>m. py_int L v \<noteq> Inl (OverflowError m)) \<longrightarrow>
            (\<exists>m. STEP_USER_DATA_SCHEMA L ui = Inl (Invalid m))
            \<and> async_step_user L env (Some ui) = ShowForm [(''base'', ''invalid_input'')]"
  proof (intro allI impI)
    fix v
    assume h: "map_of ui ''timeout'' = Some v
                \<and> (\<forall>n. py_int L v = Inr n \<longrightarrow> n < 1 \<or> 30 < n)
                \<and> (\<forall>m. py_int L v \<noteq> Inl (OverflowError m))"
    then have t: "map_of ui ''timeout'' = Some v"
      and bad: "\<forall>n. py_int L v = Inr n \<longrightarrow> n < 1 \<or> 30 < n"
      and no: "\<forall>m. py_int L v \<noteq> Inl (OverflowError m)"
      by simp_all
    from schema_invalid [OF assms t bad no] obtain m where
      m: "STEP_USER_DATA_SCHEMA L ui = Inl (Invalid m)" by blast
    from step_schema_rejected [OF m, of env]
    have "async_step_user L env (Some ui) = ShowForm [(''base'', ''invalid_input'')]" by simp
    with m show "(\<exists>m. STEP_USER_DATA_SCHEMA L ui = Inl (Invalid m))
            \<and> async_step_user L env (Some ui) = ShowForm [(''base'', ''invalid_input'')]"
      by blast
  qed
next
  show "\<forall>v m. map_of ui ''timeout'' = Some v \<and> py_int L v = Inl (OverflowError m) \<longrightarrow>
            STEP_USER_DATA_SCHEMA L ui = Inl (OverflowError m)
            \<and> async_step_user L env (Some ui) = ShowForm [(''base'', ''unknown_error: '' @ m)]"
  proof (intro allI impI)
    fix v m
    assume "map_of ui ''timeout'' = Some v \<and> py_int L v = Inl (OverflowError m)"
    then have t: "map_of ui ''timeout'' = Some v" and o: "py_int L v = Inl (OverflowError m)"
      by simp_all
    note s = schema_overflow [OF assms t o]
    from step_schema_rejected [OF s, of env]
    have "async_step_user L env (Some ui) = ShowForm [(''base'', ''unknown_error: '' @ m)]" by simp
    with s show "STEP_USER_DATA_SCHEMA L ui = Inl (OverflowError m)
            \<and> async_step_user L env (Some ui) = ShowForm [(''base'', ''unknown_error: '' @ m)]"
      by blast
  qed
next
  show "\<forall>u us p ps. set (map fst ui) \<subseteq> {''username'', ''password'', ''timeout''}
                \<and> map_of ui ''username'' = Some u \<and> cv_string L u = Inr us
                \<and> map_of ui ''password'' = Some p \<and> cv_string L p = Inr ps
                \<and> (case map_of ui ''timeout'' of None \<Rightarrow> True
                    | Some v \<Rightarrow> (\<exists>n. py_int L v = Inr n \<and> 1 \<le> n \<and> n \<le> 30)) \<longrightarrow>
            (\<exists>out. STEP_USER_DATA_SCHEMA L ui = Inr out)"
    using schema_accepts_good [OF _ assms] by blast
qed

theorem timeout_schema_bounds_witness:
  "distinct (map fst (demo_input (PInt 31)))
   \<and> map_of (demo_input (PInt 31)) ''timeout'' = Some (PInt 31)
   \<and> py_int demo_library (PInt 31) = Inr 31
   \<and> async_step_user demo_library demo_flow_env (Some (demo_input (PInt 31))) = ShowForm [(''base'', ''invalid_input'')]
   \<and> py_int demo_library (PFloat PosInf) = Inl (OverflowError ''cannot convert float infinity to integer'')
   \<and> async_step_user demo_library demo_flow_env (Some (demo_input (PFloat PosInf)))
       = ShowForm [(''base'', ''unknown_error: cannot convert float infinity to integer'')]
   \<and> STEP_USER_DATA_SCHEMA demo_library [(''username'', PStr ''user@example.org''), (''password'', PStr ''secret'')]
       = Inr [(''username'', PStr ''user@example.org''), (''password'', PStr ''secret''), (''timeout'', PInt 5)]"
proof -
  have d: "distinct (map fst (demo_input t))" for t by (simp add: demo_input_def)
  have t: "map_of (demo_input t) ''timeout'' = Some t" for t by (simp add: demo_input_def)
  have p: "py_int demo_library (PInt 31) = Inr 31" by (simp add: py_int_def)
  have q: "py_int demo_library (PFloat PosInf) = Inl (OverflowError ''cannot convert float infinity to integer'')"
    by (simp add: py_int_def)
  from timeout_schema_bounds [OF d, of demo_library "PInt 31" demo_flow_env] t [of "PInt 31"] p
  have a: "async_step_user demo_library demo_flow_env (Some (demo_input (PInt 31))) = ShowForm [(''base'', ''invalid_input'')]"
    by simp
  from timeout_schema_bounds [OF d, of demo_library "PFloat PosInf" demo_flow_env] t [of "PFloat PosInf"] q
  have b: "async_step_user demo_library demo_flow_env (Some (demo_input (PFloat PosInf)))
       = ShowForm [(''base'', ''unknown_error: cannot convert float infinity to integer'')]"
    by simp
  from a b d [of "PInt 31"] t [of "PInt 31"] p q demo_schema_default [of demo_library] show ?thesis by simp
qed


section \<open>Properties of the sensors\<close>

subsection \<open>The sample payload\<close>

lemma strip_address:
  "strip ''Mijnstraat 1 1000 AAB AMSTERDAM'' = ''Mijnstraat 1 1000 AAB AMSTERDAM''"
  by (simp add: strip_def is_space_def)

lemma example_address:
  "native_value L ''address'' example_data = Inr (PStr ''Mijnstraat 1 1000 AAB AMSTERDAM'')"
  by (simp add: native_value_def example_data_def py_iter_def native_value_account_def py_get_def
        dict_get_def format_address_def py_format_def strip_address Let_def)

lemma example_ean:
  "native_value L ''electricity_ean'' example_data = Inr (PStr ''123456789012345678'')"
  by (simp add: native_value_def example_data_def py_iter_def native_value_account_def py_get_def
        dict_get_def account_connections_def connections_value_def py_first_def elektra_value_def
        meters_value_def py_len_def Let_def)

lemma example_capacity:
  "native_value L ''connection_capacity'' example_data = Inr (PStr ''3x25A'')"
  by (simp add: native_value_def example_data_def py_iter_def native_value_account_def py_get_def
        dict_get_def account_connections_def connections_value_def py_first_def elektra_value_def
        meters_value_def py_len_def Let_def)

lemma example_status:
  "native_value L ''status'' example_data = Inr (PStr ''In bedrijf'')"
  by (simp add: native_value_def example_data_def py_iter_def native_value_account_def py_get_def
        dict_get_def account_connections_def connections_value_def py_first_def elektra_value_def
        meters_value_def py_len_def Let_def)

lemma example_meters:
  "native_value L ''number_of_meters'' example_data = Inr (PInt 1)"
  by (simp add: native_value_def example_data_def py_iter_def native_value_account_def py_get_def
        dict_get_def account_connections_def connections_value_def py_first_def elektra_value_def
        meters_value_def py_len_def Let_def)

lemma example_contract:
  "is_on ''contract'' example_data = Inr (PBool False)"
  by (simp add: is_on_def example_data_def py_iter_def is_on_account_def flag_value_def py_get_def
        dict_get_def account_connections_def py_first_def)

text \<open>
  C5. On the sample payload \<open>example_data\<close> the address sensor yields
  "Mijnstraat 1 1000 AAB AMSTERDAM", the electricity EAN sensor "123456789012345678", the
  connection capacity sensor "3x25A", the status sensor "In bedrijf" and the sensor for
  the number of meters 1.
\<close>

theorem example_data_sensor_values:
  "native_value L ''address'' example_data = Inr (PStr ''Mijnstraat 1 1000 AAB AMSTERDAM'')
   \<and> native_value L ''electricity_ean'' example_data = Inr (PStr ''123456789012345678'')
   \<and> native_value L ''connection_capacity'' example_data = Inr (PStr ''3x25A'')
   \<and> native_value L ''status'' example_data = Inr (PStr ''In bedrijf'')
   \<and> native_value L ''number_of_meters'' example_data = Inr (PInt 1)"
  by (simp only: example_address example_ean example_capacity example_status example_meters simp_thms)

subsection \<open>When the sensors raise\<close>

text \<open>
  The body of each loop is followed through its lookups: each of them succeeds exactly
  when the value it is applied to has the type that the code expects there.
\<close>

lemma truthy_list_first:
  "truthy v \<Longrightarrow> first_dict v = Some d \<Longrightarrow> \<exists>rest. v = PList (PDict d # rest)"
  by (induction v rule: first_dict.induct) simp_all

lemma first_dict_py_first:
  "first_dict v = Some d \<Longrightarrow> py_first v = Inr (PDict d)"
  by (induction v rule: first_dict.induct) (simp_all add: py_first_def)

lemma py_first_dict:
  "py_first v = Inr (PDict d) \<Longrightarrow> first_dict v = Some d"
  by (cases v) (auto simp: py_first_def split: list.splits)

lemma py_get_dict: "(\<exists>v. py_get x k dflt = Inr v) \<longleftrightarrow> is_dict x"
  by (cases x) (simp_all add: py_get_def)

lemma py_get_PDict [simp]: "py_get (PDict d) k dflt = Inr (dict_get d k dflt)"
  by (simp add: py_get_def)

lemma meters_value_ok:
  assumes "truthy m"
  shows "(\<exists>v. meters_value key val m = Inr v) \<longleftrightarrow> nv_meters_ok key m"
proof (cases m)
  case (PList ys)
  with assms obtain y rest where ys: "ys = y # rest" by (cases ys) auto
  show ?thesis
  proof (cases y)
    case (PDict d)
    with PList ys show ?thesis
      by (simp add: meters_value_def nv_meters_ok_def py_len_def py_first_def)
  qed (use PList ys in \<open>auto simp: meters_value_def nv_meters_ok_def py_len_def py_first_def py_get_def meter_keys_def\<close>)
next
  case (PStr s)
  with assms obtain ch rest where "s = ch # rest" by (cases s) auto
  with PStr show ?thesis
    by (auto simp: meters_value_def nv_meters_ok_def py_len_def py_first_def py_get_def meter_keys_def)
qed (use assms in \<open>auto simp: meters_value_def nv_meters_ok_def py_len_def py_first_def\<close>)

lemma elektra_value_dict: "\<exists>v. elektra_value key val (PDict e) = Inr v"
  by (simp add: elektra_value_def)

lemma connections_value_ok:
  assumes "truthy ec"
  shows "(\<exists>s. connections_value key val ec = Inr s) \<longleftrightarrow> connections_ok (nv_meters_ok key) ec"
proof (cases "first_dict ec")
  case None
  have "\<forall>s. connections_value key val ec \<noteq> Inr s"
  proof (cases "py_first ec")
    case (Inl e)
    then show ?thesis by (simp add: connections_value_def)
  next
    case (Inr x)
    with None have "\<not> is_dict x" using py_first_dict [of ec] by (cases x) auto
    then have "\<forall>v. py_get x ''meters'' (PList []) \<noteq> Inr v" using py_get_dict [of x] by blast
    then show ?thesis using Inr
      by (auto simp: connections_value_def split: sum.splits)
  qed
  with None assms show ?thesis by (simp add: connections_ok_def)
next
  case (Some e)
  note pf = first_dict_py_first [OF Some]
  obtain v1 where v1: "elektra_value key val (PDict e) = Inr v1"
    using elektra_value_dict by blast
  let ?m = "dict_get e ''meters'' (PList [])"
  show ?thesis
  proof (cases "truthy ?m")
    case True
    have "(\<exists>s. connections_value key val ec = Inr s) \<longleftrightarrow> (\<exists>v. meters_value key v1 ?m = Inr v)"
      using pf v1 True by (auto simp: connections_value_def split: sum.splits)
    with meters_value_ok [OF True, of key v1] Some assms show ?thesis
      by (simp add: connections_ok_def)
  next
    case False
    then have "\<exists>s. connections_value key val ec = Inr s"
      using pf v1 by (simp add: connections_value_def)
    with False Some assms show ?thesis by (simp add: connections_ok_def nv_meters_ok_def)
  qed
qed

lemma account_connections_ok:
  "(\<exists>ec. account_connections (PDict d) = Inr ec) \<longleftrightarrow> is_dict (dict_get d ''aansluitingen'' (PDict []))"
  "is_dict (dict_get d ''aansluitingen'' (PDict [])) \<Longrightarrow>
     account_connections (PDict d) = Inr (dict_get (dict_items (dict_get d ''aansluitingen'' (PDict []))) ''elektra'' (PList []))"
  by (auto simp: account_connections_def py_get_def split: pyval.splits)

lemma native_value_account_ok:
  "(\<exists>s. native_value_account L key val account = Inr s) \<longleftrightarrow> nv_account_ok key account"
proof (cases account)
  case (PDict d)
  let ?adr = "dict_get d ''adres'' (PDict [])"
  let ?a = "dict_get d ''aansluitingen'' (PDict [])"
  show ?thesis
  proof (cases "truthy ?adr \<and> is_dict ?adr \<and> key = ''address''")
    case True
    with PDict show ?thesis by (auto simp: native_value_account_def nv_account_ok_def)
  next
    case False
    show ?thesis
    proof (cases ?a)
      case (PDict ad)
      let ?ec = "dict_get ad ''elektra'' (PList [])"
      have ac: "account_connections account = Inr ?ec"
        using PDict \<open>account = PDict d\<close> by (simp add: account_connections_def)
      have "(\<exists>s. native_value_account L key val account = Inr s)
              \<longleftrightarrow> (\<exists>s. (if truthy ?ec then connections_value key val ?ec else Inr (Next val)) = Inr s)"
        using False ac \<open>account = PDict d\<close> by (auto simp: native_value_account_def)
      also have "\<dots> \<longleftrightarrow> connections_ok (nv_meters_ok key) ?ec"
        using connections_value_ok [of ?ec key val] by (auto simp: connections_ok_def)
      finally show ?thesis
        using False PDict \<open>account = PDict d\<close>
        by (auto simp: nv_account_ok_def aansluitingen_ok_def)
    qed (use False \<open>account = PDict d\<close> in
          \<open>auto simp: native_value_account_def nv_account_ok_def aansluitingen_ok_def
                      account_connections_def py_get_def\<close>)
  qed
qed (auto simp: native_value_account_def nv_account_ok_def py_get_def)

lemma meters_next_none:
  "connections_value key val ec = Inr (Next v) \<Longrightarrow> v = PNone"
  by (auto simp: connections_value_def split: sum.splits if_splits)

lemma account_next_none:
  "native_value_account L key PNone a = Inr (Next v) \<Longrightarrow> v = PNone"
  by (auto simp: native_value_account_def split: sum.splits if_splits dest: meters_next_none)

lemma native_value_loop_ok:
  "(\<exists>v. native_value_loop L key PNone accounts = Inr v)
     \<longleftrightarrow> list_all (nv_account_ok key)
           (reached (\<lambda>a. native_value_account L key PNone a = Inr (Next PNone)) accounts)"
proof (induction accounts)
  case Nil
  then show ?case by simp
next
  case (Cons a accounts)
  show ?case
  proof (cases "native_value_account L key PNone a")
    case (Inl e)
    then have "\<not> nv_account_ok key a"
      using native_value_account_ok [of L key PNone a] by simp
    with Inl show ?thesis by simp
  next
    case (Inr s)
    then have ok: "nv_account_ok key a"
      using native_value_account_ok [of L key PNone a] by auto
    show ?thesis
    proof (cases s)
      case (Return v)
      with Inr ok show ?thesis by simp
    next
      case (Next v)
      with Inr have "v = PNone" using account_next_none by blast
      with Inr Next ok Cons.IH show ?thesis by simp
    qed
  qed
qed

lemma native_value_ok:
  "(\<exists>v. native_value L key data = Inr v)
     \<longleftrightarrow> \<not> truthy data
         \<or> (\<exists>accounts. data = PList accounts
               \<and> list_all (nv_account_ok key)
                    (reached (\<lambda>a. native_value_account L key PNone a = Inr (Next PNone)) accounts))"
proof (cases "truthy data")
  case False
  then show ?thesis by (simp add: native_value_def)
next
  case True
  show ?thesis
  proof (cases data)
    case (PList accounts)
    with True native_value_loop_ok [of L key accounts] show ?thesis
      by (simp add: native_value_def py_iter_def)
  next
    case (PDict kvs)
    with True obtain k v rest where "kvs = (k, v) # rest" by (cases kvs) auto
    with PDict True show ?thesis
      by (simp add: native_value_def py_iter_def native_value_account_def py_get_def)
  next
    case (PStr s)
    with True obtain ch rest where "s = ch # rest" by (cases s) auto
    with PStr True show ?thesis
      by (simp add: native_value_def py_iter_def native_value_account_def py_get_def)
  qed (use True in \<open>simp_all add: native_value_def py_iter_def\<close>)
qed

lemma py_get_not_dict: "\<not> is_dict y \<Longrightarrow> \<exists>e. py_get y k dflt = Inl e"
  by (cases y) (simp_all add: py_get_def)

lemma flag_value_connection:
  assumes "key \<in> set connection_flags"
  shows "flag_value key (PDict e) m = Inr (Some (dict_get e key (PBool False)))"
proof -
  from assms have "key = ''contract'' \<or> key = ''toestemmingVoorUitlezen'' \<or> key = ''levertTerug''"
    by (simp add: connection_flags_def)
  then show ?thesis by (elim disjE) (simp_all add: flag_value_def)
qed

lemma flag_value_meter:
  assumes "key \<in> set meter_flags"
  shows "flag_value key (PDict e) m = (if truthy m then meter_flag key m else Inr None)"
proof -
  from assms have "key = ''slimmeMeter'' \<or> key = ''geschiktVoorTerugleveren'' \<or> key = ''geschiktVoorDubbeltarief''"
    by (simp add: meter_flags_def)
  then show ?thesis by (elim disjE) (simp_all add: flag_value_def)
qed

lemma flag_value_other:
  assumes "key \<notin> set connection_flags" and "key \<notin> set meter_flags"
  shows "flag_value key x m = Inr None"
  using assms by (simp add: flag_value_def connection_flags_def meter_flags_def)

lemma meter_flag_ok:
  assumes "truthy m"
  shows "(\<exists>s. meter_flag key m = Inr s) \<longleftrightarrow> first_dict m \<noteq> None"
proof (cases "first_dict m")
  case (Some md)
  from first_dict_py_first [OF Some] show ?thesis using Some by (simp add: meter_flag_def)
next
  case None
  have "\<forall>s. meter_flag key m \<noteq> Inr s"
  proof (cases "py_first m")
    case (Inl e)
    then show ?thesis by (simp add: meter_flag_def)
  next
    case (Inr y)
    with None have "\<not> is_dict y" using py_first_dict [of m] by (cases y) auto
    from py_get_not_dict [OF this, of key "PBool False"] obtain e where
      "py_get y key (PBool False) = Inl e" by blast
    with Inr show ?thesis by (simp add: meter_flag_def)
  qed
  with None show ?thesis by simp
qed

lemma flag_value_ok:
  "(\<exists>s. flag_value key (PDict e) m = Inr s) \<longleftrightarrow> on_meters_ok key m"
proof (cases "key \<in> set meter_flags")
  case True
  show ?thesis
  proof (cases "truthy m")
    case t: True
    with True meter_flag_ok [OF t, of key] show ?thesis
      by (simp add: flag_value_meter on_meters_ok_def)
  next
    case False
    with True show ?thesis by (simp add: flag_value_meter on_meters_ok_def)
  qed
next
  case False
  show ?thesis
  proof (cases "key \<in> set connection_flags")
    case True
    with False show ?thesis by (simp add: flag_value_connection on_meters_ok_def)
  next
    case c: False
    with False show ?thesis by (simp add: flag_value_other on_meters_ok_def)
  qed
qed

lemma is_on_account_ok:
  "(\<exists>s. is_on_account key account = Inr s) \<longleftrightarrow> on_account_ok key account"
proof (cases account)
  case (PDict d)
  let ?a = "dict_get d ''aansluitingen'' (PDict [])"
  show ?thesis
  proof (cases ?a)
    case (PDict ad)
    let ?ec = "dict_get ad ''elektra'' (PList [])"
    have ac: "account_connections account = Inr ?ec"
      using PDict \<open>account = PDict d\<close> by (simp add: account_connections_def)
    show ?thesis
    proof (cases "truthy ?ec")
      case False
      with ac PDict \<open>account = PDict d\<close> show ?thesis
        by (simp add: is_on_account_def on_account_ok_def aansluitingen_ok_def connections_ok_def)
    next
      case True
      show ?thesis
      proof (cases "first_dict ?ec")
        case None
        have "\<forall>s. is_on_account key account \<noteq> Inr s"
        proof (cases "py_first ?ec")
          case (Inl e)
          with ac True show ?thesis by (simp add: is_on_account_def)
        next
          case (Inr x)
          with None have "\<not> is_dict x" using py_first_dict [of ?ec] by (cases x) auto
          from py_get_not_dict [OF this, of "''meters''" "PList []"] obtain e where
            "py_get x ''meters'' (PList []) = Inl e" by blast
          then show ?thesis using Inr ac True by (simp add: is_on_account_def)
        qed
        with None True PDict \<open>account = PDict d\<close> show ?thesis
          by (simp add: on_account_ok_def aansluitingen_ok_def connections_ok_def)
      next
        case (Some e)
        note pf = first_dict_py_first [OF Some]
        have "is_on_account key account = flag_value key (PDict e) (dict_get e ''meters'' (PList []))"
          using ac True pf by (simp add: is_on_account_def)
        with flag_value_ok [of key e "dict_get e ''meters'' (PList [])"]
        show ?thesis
          using Some True PDict \<open>account = PDict d\<close>
          by (simp add: on_account_ok_def aansluitingen_ok_def connections_ok_def)
      qed
    qed
  next
    case PNone
    with \<open>account = PDict d\<close> show ?thesis
      by (simp add: is_on_account_def on_account_ok_def aansluitingen_ok_def account_connections_def py_get_def)
  next
    case (PBool x)
    with \<open>account = PDict d\<close> show ?thesis
      by (simp add: is_on_account_def on_account_ok_def aansluitingen_ok_def account_connections_def py_get_def)
  next
    case (PInt x)
    with \<open>account = PDict d\<close> show ?thesis
      by (simp add: is_on_account_def on_account_ok_def aansluitingen_ok_def account_connections_def py_get_def)
  next
    case (PFloat x)
    with \<open>account = PDict d\<close> show ?thesis
      by (simp add: is_on_account_def on_account_ok_def aansluitingen_ok_def account_connections_def py_get_def)
  next
    case (PStr x)
    with \<open>account = PDict d\<close> show ?thesis
      by (simp add: is_on_account_def on_account_ok_def aansluitingen_ok_def account_connections_def py_get_def)
  next
    case (PList x)
    with \<open>account = PDict d\<close> show ?thesis
      by (simp add: is_on_account_def on_account_ok_def aansluitingen_ok_def account_connections_def py_get_def)
  qed
qed (simp_all add: is_on_account_def on_account_ok_def account_connections_def py_get_def)

lemma meter_flag_origin:
  assumes "meter_flag key m = Inr (Some v)"
  shows "\<exists>md. first_dict m = Some md \<and> v = dict_get md key (PBool False)"
proof (cases "py_first m")
  case (Inl e)
  with assms show ?thesis by (simp add: meter_flag_def)
next
  case (Inr y)
  show ?thesis
  proof (cases "is_dict y")
    case False
    from py_get_not_dict [OF this, of key "PBool False"] assms Inr show ?thesis
      by (auto simp: meter_flag_def)
  next
    case True
    then obtain md where y: "y = PDict md" by (cases y) auto
    with Inr have "first_dict m = Some md" using py_first_dict [of m] by auto
    with assms Inr y show ?thesis by (simp add: meter_flag_def)
  qed
qed

lemma flag_value_origin:
  assumes "flag_value key (PDict e) (dict_get e ''meters'' (PList [])) = Inr (Some v)"
  shows "(key \<in> set connection_flags \<and> v = dict_get e key (PBool False))
       \<or> (key \<in> set meter_flags \<and> (\<exists>m. first_meter e = Some m \<and> v = dict_get m key (PBool False)))"
proof (cases "key \<in> set connection_flags")
  case True
  with assms show ?thesis by (simp add: flag_value_connection)
next
  case False
  show ?thesis
  proof (cases "key \<in> set meter_flags")
    case f: False
    with False assms show ?thesis by (simp add: flag_value_other)
  next
    case True
    with assms have "truthy (dict_get e ''meters'' (PList []))"
      and "meter_flag key (dict_get e ''meters'' (PList [])) = Inr (Some v)"
      by (auto simp: flag_value_meter split: if_splits)
    with meter_flag_origin [of key "dict_get e ''meters'' (PList [])" v] True show ?thesis
      by (simp add: first_meter_def)
  qed
qed

lemma connection_meter_flags_disjoint:
  "key \<in> set connection_flags \<Longrightarrow> key \<notin> set meter_flags"
  by (auto simp: connection_flags_def meter_flags_def)

lemma is_on_account_origin:
  assumes "is_on_account key account = Inr (Some v)"
  shows "stored_flag key account = Some v"
proof -
  from assms obtain ec where ac: "account_connections account = Inr ec"
    by (cases "account_connections account") (simp_all add: is_on_account_def)
  from assms ac have t: "truthy ec" by (auto simp: is_on_account_def split: if_splits)
  from assms ac t obtain x where x: "py_first ec = Inr x"
    by (cases "py_first ec") (simp_all add: is_on_account_def)
  from assms ac t x obtain m where m: "py_get x ''meters'' (PList []) = Inr m"
    by (cases "py_get x ''meters'' (PList [])") (simp_all add: is_on_account_def)
  then obtain e where e: "x = PDict e" using py_get_not_dict [of x "''meters''" "PList []"]
    by (cases x) auto
  with m have m': "m = dict_get e ''meters'' (PList [])" by (simp add: py_get_def)
  from assms ac t x e m m' have fv: "flag_value key (PDict e) (dict_get e ''meters'' (PList [])) = Inr (Some v)"
    by (simp add: is_on_account_def)
  from x e have fd: "first_dict ec = Some e" using py_first_dict [of ec] by auto
  obtain d where d: "account = PDict d"
    using ac py_get_not_dict [of account "''aansluitingen''" "PDict []"]
    by (cases account) (auto simp: account_connections_def)
  obtain ad where ad: "dict_get d ''aansluitingen'' (PDict []) = PDict ad"
    using ac d py_get_not_dict [of "dict_get d ''aansluitingen'' (PDict [])" "''elektra''" "PList []"]
    by (cases "dict_get d ''aansluitingen'' (PDict [])") (auto simp: account_connections_def py_get_def)
  from ac d ad have "ec = dict_get ad ''elektra'' (PList [])"
    by (simp add: account_connections_def py_get_def)
  with fd d ad have fc: "first_connection account = Some e" by (simp add: first_connection_def)
  from flag_value_origin [OF fv] fc show ?thesis
    by (auto simp: stored_flag_def connection_meter_flags_disjoint)
qed

lemma is_on_loop_ok:
  "(\<exists>v. is_on_loop key accounts = Inr v)
     \<longleftrightarrow> list_all (on_account_ok key) (reached (\<lambda>a. is_on_account key a = Inr None) accounts)"
proof (induction accounts)
  case Nil
  then show ?case by simp
next
  case (Cons a accounts)
  show ?case
  proof (cases "is_on_account key a")
    case (Inl e)
    then have "\<not> on_account_ok key a" using is_on_account_ok [of key a] by simp
    with Inl show ?thesis by simp
  next
    case (Inr s)
    then have ok: "on_account_ok key a" using is_on_account_ok [of key a] by auto
    show ?thesis
    proof (cases s)
      case None
      with Inr ok Cons.IH show ?thesis by simp
    next
      case (Some v)
      with Inr ok show ?thesis by simp
    qed
  qed
qed

lemma is_on_loop_origin:
  "is_on_loop key accounts = Inr v \<Longrightarrow>
     v = PBool False
     \<or> (\<exists>a \<in> set (reached (\<lambda>a. is_on_account key a = Inr None) accounts). stored_flag key a = Some v)"
proof (induction accounts)
  case Nil
  then show ?case by simp
next
  case (Cons a accounts)
  show ?case
  proof (cases "is_on_account key a")
    case (Inl e)
    with Cons.prems show ?thesis by simp
  next
    case (Inr s)
    show ?thesis
    proof (cases s)
      case None
      with Inr Cons show ?thesis by auto
    next
      case (Some w)
      with Inr Cons.prems have "w = v" by simp
      with Inr Some is_on_account_origin [of key a v] show ?thesis by simp
    qed
  qed
qed

lemma is_on_ok:
  "(\<exists>v. is_on key data = Inr v)
     \<longleftrightarrow> \<not> truthy data
         \<or> (\<exists>accounts. data = PList accounts
               \<and> list_all (on_account_ok key)
                    (reached (\<lambda>a. is_on_account key a = Inr None) accounts))"
proof (cases "truthy data")
  case False
  then show ?thesis by (simp add: is_on_def)
next
  case True
  show ?thesis
  proof (cases data)
    case (PList accounts)
    with True is_on_loop_ok [of key accounts] show ?thesis
      by (simp add: is_on_def py_iter_def)
  next
    case (PDict kvs)
    with True obtain k v rest where "kvs = (k, v) # rest" by (cases kvs) auto
    with PDict True show ?thesis
      by (simp add: is_on_def py_iter_def is_on_account_def account_connections_def py_get_def)
  next
    case (PStr s)
    with True obtain ch rest where "s = ch # rest" by (cases s) auto
    with PStr True show ?thesis
      by (simp add: is_on_def py_iter_def is_on_account_def account_connections_def py_get_def)
  qed (use True in \<open>simp_all add: is_on_def py_iter_def\<close>)
qed

lemma is_on_origin:
  assumes "is_on key data = Inr v"
  shows "v = PBool False
     \<or> (\<exists>accounts. data = PList accounts
          \<and> (\<exists>a \<in> set (reached (\<lambda>a. is_on_account key a = Inr None) accounts). stored_flag key a = Some v))"
proof (cases "truthy data")
  case False
  with assms show ?thesis by (simp add: is_on_def)
next
  case True
  show ?thesis
  proof (cases data)
    case (PList accounts)
    with True assms is_on_loop_origin [of key accounts v] show ?thesis
      by (simp add: is_on_def py_iter_def)
  next
    case (PDict kvs)
    with True obtain k w rest where "kvs = (k, w) # rest" by (cases kvs) auto
    with PDict True assms show ?thesis
      by (simp add: is_on_def py_iter_def is_on_account_def account_connections_def py_get_def)
  next
    case (PStr s)
    with True obtain ch rest where "s = ch # rest" by (cases s) auto
    with PStr True assms show ?thesis
      by (simp add: is_on_def py_iter_def is_on_account_def account_connections_def py_get_def)
  qed (use True assms in \<open>simp_all add: is_on_def py_iter_def\<close>)
qed

lemma is_on_account_stored:
  assumes "stored_flag key account = Some v"
  shows "is_on_account key account = Inr (Some v)"
proof -
  from assms obtain e where fc: "first_connection account = Some e"
    by (cases "first_connection account") (simp_all add: stored_flag_def)
  then obtain d where d: "account = PDict d"
    by (cases account) (simp_all add: first_connection_def)
  with fc obtain ad where ad: "dict_get d ''aansluitingen'' (PDict []) = PDict ad"
    by (cases "dict_get d ''aansluitingen'' (PDict [])") (simp_all add: first_connection_def)
  let ?ec = "dict_get ad ''elektra'' (PList [])"
  from fc d ad have fd: "first_dict ?ec = Some e" by (simp add: first_connection_def)
  then have t: "truthy ?ec" by (cases ?ec rule: first_dict.cases) simp_all
  have ac: "account_connections account = Inr ?ec"
    using d ad by (simp add: account_connections_def)
  have eq: "is_on_account key account = flag_value key (PDict e) (dict_get e ''meters'' (PList []))"
    using ac t first_dict_py_first [OF fd] by (simp add: is_on_account_def)
  show ?thesis
  proof (cases "key \<in> set connection_flags")
    case True
    with assms fc eq show ?thesis by (simp add: stored_flag_def flag_value_connection)
  next
    case False
    with assms fc have mf: "key \<in> set meter_flags"
      by (auto simp: stored_flag_def split: if_splits)
    with assms fc False obtain m where m: "first_meter e = Some m" and v: "v = dict_get m key (PBool False)"
      by (auto simp: stored_flag_def split: option.splits)
    let ?ms = "dict_get e ''meters'' (PList [])"
    from m have fdm: "first_dict ?ms = Some m" by (simp add: first_meter_def)
    then have tm: "truthy ?ms" by (cases ?ms rule: first_dict.cases) simp_all
    from first_dict_py_first [OF fdm] v have "meter_flag key ?ms = Inr (Some v)"
      by (simp add: meter_flag_def)
    with eq mf tm show ?thesis by (simp add: flag_value_meter)
  qed
qed

lemma list_all_reached:
  "list_all P accounts \<Longrightarrow> list_all P (reached goes_on accounts)"
  by (induction accounts) simp_all

lemma null_elektra_ok:
  "nv_account_ok ''status'' (PDict [(''aansluitingen'', PDict [(''elektra'', PNone)])])"
  "on_account_ok ''slimmeMeter'' (PDict [(''aansluitingen'', PDict [(''elektra'', PNone)])])"
  by (simp_all add: nv_account_ok_def on_account_ok_def aansluitingen_ok_def connections_ok_def dict_get_def)

text \<open>
  C10, as the claim states it, fails: a lookup with a default protects against a missing
  key only. A record whose \<open>aansluitingen\<close> field is \<^verbatim>\<open>null\<close> makes both
  properties raise \<open>AttributeError\<close>, since \<^verbatim>\<open>None\<close> has no \<^verbatim>\<open>get\<close>; and for a
  connection whose \<open>contract\<close> field is \<^verbatim>\<open>null\<close>, \<open>is_on\<close> evaluates to \<^verbatim>\<open>None\<close>, which
  is not a boolean.
\<close>

theorem null_field_raises:
  "native_value demo_library ''status'' (PList [PDict [(''aansluitingen'', PNone)]])
     = Inl (AttributeError (quoted ''NoneType'' @ '' object has no attribute '' @ quoted ''get''))
   \<and> is_on ''contract'' (PList [PDict [(''aansluitingen'', PNone)]])
     = Inl (AttributeError (quoted ''NoneType'' @ '' object has no attribute '' @ quoted ''get''))
   \<and> is_on ''contract''
       (PList [PDict [(''aansluitingen'', PDict [(''elektra'', PList [PDict [(''contract'', PNone)]])])]])
     = Inr PNone"
  by (simp add: native_value_def is_on_def py_iter_def native_value_account_def is_on_account_def
        flag_value_def account_connections_def py_get_def py_first_def dict_get_def)

text \<open>
  C10, amended. For data that is false (\<^verbatim>\<open>None\<close>, an empty list, and every other value
  that Python takes for false) \<open>native_value\<close> evaluates to \<^verbatim>\<open>None\<close> and \<open>is_on\<close> to
  \<open>False\<close>. For any other data, a property evaluates without raising exactly when the
  data is a list and every record that its loop looks at (the loop stops at the first
  record for which the body returns) is well formed for the key of the sensor: the
  record is a dict; \<open>aansluitingen\<close> is missing or a dict; \<open>elektra\<close> is missing, false
  (\<^verbatim>\<open>null\<close>, empty) or a list whose first element is a dict; and \<open>meters\<close> of that first
  connection is, for \<open>is_on\<close>, missing, false or a list whose first element is a dict
  when the key reads the meter and anything when it does not; for \<open>native_value\<close>,
  missing, false, a list (whose first element is a dict when the key reads the
  meter) or, when the key does not read the meter, a string. For the key \<open>address\<close>,
  \<open>native_value\<close> also does not raise on a dict record whose \<open>adres\<close> is a non-empty
  dict, whatever its connections. In particular neither property raises on a list of
  records that are all well formed. When \<open>is_on\<close> evaluates, the result is \<open>False\<close> or
  the flag that one of the records it looked at stores under the key of the sensor,
  in its first connection or in the first meter of that connection; the flag is the
  stored JSON value as it is, boolean or not.
\<close>

theorem sensors_raise_exactly:
  "((\<exists>v. native_value L key data = Inr v)
      \<longleftrightarrow> \<not> truthy data
          \<or> (\<exists>accounts. data = PList accounts
                \<and> list_all (nv_account_ok key)
                     (reached (\<lambda>a. native_value_account L key PNone a = Inr (Next PNone)) accounts)))
   \<and> ((\<exists>v. is_on bkey data = Inr v)
      \<longleftrightarrow> \<not> truthy data
          \<or> (\<exists>accounts. data = PList accounts
                \<and> list_all (on_account_ok bkey)
                     (reached (\<lambda>a. is_on_account bkey a = Inr None) accounts)))
   \<and> (\<forall>accounts. data = PList accounts \<and> list_all (nv_account_ok key) accounts
         \<longrightarrow> (\<exists>v. native_value L key data = Inr v))
   \<and> (\<forall>accounts. data = PList accounts \<and> list_all (on_account_ok bkey) accounts
         \<longrightarrow> (\<exists>v. is_on bkey data = Inr v))
   \<and> (\<forall>v. is_on bkey data = Inr v
         \<longrightarrow> v = PBool False
             \<or> (\<exists>accounts. data = PList accounts
                   \<and> (\<exists>a \<in> set (reached (\<lambda>a. is_on_account bkey a = Inr None) accounts).
                         stored_flag bkey a = Some v)))
   \<and> (\<forall>a v. (is_on_account bkey a = Inr (Some v)) = (stored_flag bkey a = Some v))
   \<and> (\<not> truthy data \<longrightarrow> native_value L key data = Inr PNone \<and> is_on bkey data = Inr (PBool False))"
proof -
  have nv: "(\<exists>v. native_value L key data = Inr v)
      \<longleftrightarrow> \<not> truthy data
          \<or> (\<exists>accounts. data = PList accounts
                \<and> list_all (nv_account_ok key)
                     (reached (\<lambda>a. native_value_account L key PNone a = Inr (Next PNone)) accounts))"
    by (rule native_value_ok)
  have on: "(\<exists>v. is_on bkey data = Inr v)
      \<longleftrightarrow> \<not> truthy data
          \<or> (\<exists>accounts. data = PList accounts
                \<and> list_all (on_account_ok bkey)
                     (reached (\<lambda>a. is_on_account bkey a = Inr None) accounts))"
    by (rule is_on_ok)
  have nv_all: "\<forall>accounts. data = PList accounts \<and> list_all (nv_account_ok key) accounts
         \<longrightarrow> (\<exists>v. native_value L key data = Inr v)"
    using nv list_all_reached [of "nv_account_ok key"] by blast
  have on_all: "\<forall>accounts. data = PList accounts \<and> list_all (on_account_ok bkey) accounts
         \<longrightarrow> (\<exists>v. is_on bkey data = Inr v)"
    using on list_all_reached [of "on_account_ok bkey"] by blast
  have origin: "\<forall>v. is_on bkey data = Inr v
         \<longrightarrow> v = PBool False
             \<or> (\<exists>accounts. data = PList accounts
                   \<and> (\<exists>a \<in> set (reached (\<lambda>a. is_on_account bkey a = Inr None) accounts).
                         stored_flag bkey a = Some v))"
    using is_on_origin [of bkey data] by blast
  have stored: "\<forall>a v. (is_on_account bkey a = Inr (Some v)) = (stored_flag bkey a = Some v)"
    using is_on_account_origin is_on_account_stored by blast
  have falsy: "\<not> truthy data \<longrightarrow> native_value L key data = Inr PNone \<and> is_on bkey data = Inr (PBool False)"
    by (simp add: native_value_def is_on_def)
  from nv on nv_all on_all origin stored falsy show ?thesis by (intro conjI)
qed

theorem sensors_raise_exactly_witness:
  "list_all (nv_account_ok ''status'') [PDict [(''aansluitingen'', PDict [(''elektra'', PNone)])]]
   \<and> (\<exists>v. native_value demo_library ''status''
              (PList [PDict [(''aansluitingen'', PDict [(''elektra'', PNone)])]]) = Inr v)
   \<and> list_all (on_account_ok ''slimmeMeter'') [PDict [(''aansluitingen'', PDict [(''elektra'', PNone)])]]
   \<and> (\<exists>v. is_on ''slimmeMeter''
              (PList [PDict [(''aansluitingen'', PDict [(''elektra'', PNone)])]]) = Inr v)
   \<and> \<not> truthy (PList [])
   \<and> native_value demo_library ''status'' (PList []) = Inr PNone
   \<and> is_on ''slimmeMeter'' (PList []) = Inr (PBool False)"
proof -
  let ?a = "PDict [(''aansluitingen'', PDict [(''elektra'', PNone)])]"
  note at_record = sensors_raise_exactly [of demo_library "''status''" "PList [?a]" "''slimmeMeter''"]
  note at_empty = sensors_raise_exactly [of demo_library "''status''" "PList []" "''slimmeMeter''"]
  have nv_ok: "list_all (nv_account_ok ''status'') [?a]"
    and on_ok: "list_all (on_account_ok ''slimmeMeter'') [?a]"
    using null_elektra_ok by simp_all
  from at_record have
    "\<forall>accounts. PList [?a] = PList accounts \<and> list_all (nv_account_ok ''status'') accounts
         \<longrightarrow> (\<exists>v. native_value demo_library ''status'' (PList [?a]) = Inr v)"
    by (elim conjE)
  with nv_ok have nv: "\<exists>v. native_value demo_library ''status'' (PList [?a]) = Inr v" by blast
  from at_record have
    "\<forall>accounts. PList [?a] = PList accounts \<and> list_all (on_account_ok ''slimmeMeter'') accounts
         \<longrightarrow> (\<exists>v. is_on ''slimmeMeter'' (PList [?a]) = Inr v)"
    by (elim conjE)
  with on_ok have on: "\<exists>v. is_on ''slimmeMeter'' (PList [?a]) = Inr v" by blast
  from at_empty have
    "\<not> truthy (PList []) \<longrightarrow> native_value demo_library ''status'' (PList []) = Inr PNone
        \<and> is_on ''slimmeMeter'' (PList []) = Inr (PBool False)"
    by (elim conjE)
  then have empty: "native_value demo_library ''status'' (PList []) = Inr PNone"
      "is_on ''slimmeMeter'' (PList []) = Inr (PBool False)"
    by simp_all
  have "\<not> truthy (PList [])" by simp
  with nv_ok nv on_ok on empty show ?thesis by (intro conjI)
qed

end
